theory Spec2Isabelle
  imports Main "HOL-Library.Sublist"
begin

section \<open>Strings of the host language\<close>

text \<open>
  A JavaScript string is a sequence of 16-bit code units.  The model has the strings whose
  code units are below 256, one \<^typ>\<open>char\<close> for each code unit, so that \<open>CHR 0xA0\<close> is the
  no-break space.  \<open>String.prototype.split\<close> with a
  non-empty string separator scans the subject from left to right, cuts at every occurrence of
  the separator that does not overlap the previous one, and always returns at least one
  segment.  \<open>split_on sep cur s\<close> carries the segment being collected in \<open>cur\<close>.
\<close>

function split_on :: "string \<Rightarrow> string \<Rightarrow> string \<Rightarrow> string list" where
  "split_on sep cur [] = [cur]"
| "split_on sep cur (c # cs) =
     (if sep \<noteq> [] \<and> prefix sep (c # cs)
      then cur # split_on sep [] (drop (length sep) (c # cs))
      else split_on sep (cur @ [c]) cs)"
  by pat_completeness auto
termination
  by (relation "measure (\<lambda>(sep, cur, s). length s)") auto

definition js_split :: "string \<Rightarrow> string \<Rightarrow> string list" where
  "js_split s sep = split_on sep [] s"

text \<open>\<open>Array.prototype.join\<close> on an array of strings.\<close>

fun js_join :: "string \<Rightarrow> string list \<Rightarrow> string" where
  "js_join sep [] = []"
| "js_join sep [x] = x"
| "js_join sep (x # y # ys) = x @ sep @ js_join sep (y # ys)"

section \<open>Headsign endpoints\<close>

text \<open>
  \<open>getRouteEndpoints\<close>: \<open>parts[0]\<close> and \<open>parts[parts.length - 1]\<close> of
  \<open>headsign.split(' - ')\<close>.  Reading an array out of range yields \<open>undefined\<close>, which is
  \<open>None\<close> here.
\<close>

record endpoints =
  origin :: "string option"
  destination :: "string option"

definition js_at :: "'a list \<Rightarrow> int \<Rightarrow> 'a option" where
  "js_at xs i = (if 0 \<le> i \<and> i < int (length xs) then Some (xs ! nat i) else None)"

definition getRouteEndpoints :: "string \<Rightarrow> endpoints" where
  "getRouteEndpoints headsign =
     (let parts = js_split headsign '' - ''
      in \<lparr> origin = js_at parts 0,
           destination = js_at parts (int (length parts) - 1) \<rparr>)"

section \<open>Values of the shape payload\<close>

text \<open>
  The shape payload is declared \<open>any\<close>.  The values that reach the exporters are those of a
  parsed GeoJSON document: numbers, strings, nested arrays, \<open>null\<close>, and \<open>undefined\<close> for a
  member that is missing.  Numbers are kept abstract in the type \<open>'n\<close>; the two operations the
  code applies to them, conversion to a string inside a template literal and the truth test of
  \<open>!x\<close>, are the fields of \<open>number_ops\<close>.
\<close>

datatype 'n jsval = Undefined | Null | Num 'n | Str string | Arr "'n jsval list"

record 'n number_ops =
  num_string :: "'n \<Rightarrow> string"
  num_falsy :: "'n \<Rightarrow> bool"

text \<open>\<open>ToString\<close>, as applied by \<open>${...}\<close>; an array joins its elements with a comma,
  \<open>null\<close> and \<open>undefined\<close> elements giving the empty string.\<close>

fun js_string :: "'n number_ops \<Rightarrow> 'n jsval \<Rightarrow> string" where
  "js_string N Undefined = ''undefined''"
| "js_string N Null = ''null''"
| "js_string N (Num n) = num_string N n"
| "js_string N (Str s) = s"
| "js_string N (Arr xs) =
     js_join '','' (map (\<lambda>x. if x = Undefined \<or> x = Null then [] else js_string N x) xs)"

fun js_truthy :: "'n number_ops \<Rightarrow> 'n jsval \<Rightarrow> bool" where
  "js_truthy N Undefined = False"
| "js_truthy N Null = False"
| "js_truthy N (Num n) = (\<not> num_falsy N n)"
| "js_truthy N (Str s) = (s \<noteq> [])"
| "js_truthy N (Arr xs) = True"

text \<open>
  \<open>v[i]\<close>: reading a member of \<open>null\<close> or \<open>undefined\<close> throws a \<open>TypeError\<close> (\<open>None\<close>);
  an index out of range, or any index of a number, reads \<open>undefined\<close>.
\<close>

fun js_index :: "'n jsval \<Rightarrow> nat \<Rightarrow> 'n jsval option" where
  "js_index Undefined i = None"
| "js_index Null i = None"
| "js_index (Num n) i = Some Undefined"
| "js_index (Str s) i = Some (if i < length s then Str [s ! i] else Undefined)"
| "js_index (Arr xs) i = Some (if i < length xs then xs ! i else Undefined)"

text \<open>\<open>v[v.length - 1]\<close>: for an empty array or string the index is \<open>-1\<close>, for a number it is
  \<open>NaN\<close>; both read \<open>undefined\<close>.\<close>

fun js_last :: "'n jsval \<Rightarrow> 'n jsval option" where
  "js_last Undefined = None"
| "js_last Null = None"
| "js_last (Num n) = Some Undefined"
| "js_last (Str s) = Some (if s = [] then Undefined else Str [last s])"
| "js_last (Arr xs) = Some (if xs = [] then Undefined else last xs)"

section \<open>GeoJSON objects\<close>

text \<open>
  A geometry object has a \<open>type\<close> and \<open>coordinates\<close> (\<open>Undefined\<close> when the member is
  missing, as in a geometry collection).  A feature has a \<open>geometry\<close>, \<open>None\<close> when it is
  \<open>null\<close> or missing, and \<open>properties_name\<close> is the value of \<open>properties?.name\<close>.  The
  top-level object read by the exporters extends a feature with its own \<open>type\<close> and with
  \<open>features\<close>, \<open>None\<close> when that member is missing.
\<close>

record 'n geometry =
  geom_type :: string
  coordinates :: "'n jsval"

record 'n feature =
  geometry :: "'n geometry option"
  properties_name :: "'n jsval"

record 'n geojson_object = "'n feature" +
  object_type :: string
  features :: "'n feature list option"

record 'n Shape =
  geojson :: "'n geojson_object option"

section \<open>The converter \<open>geojsonToGpx\<close>\<close>

datatype gpx_error =
    InvalidGeoJSON       \<comment> \<open>the \<open>Error\<close> thrown at line 62\<close>
  | EndpointsNotFound    \<comment> \<open>the \<open>Error\<close> thrown at line 80\<close>
  | TypeError            \<comment> \<open>thrown by the runtime on a member read of \<open>null\<close>/\<open>undefined\<close>
                             or a call of a missing method\<close>

text \<open>
  The parameters \<open>origin\<close> and \<open>destination\<close> of the source are written \<open>orig\<close> and
  \<open>dest\<close> below, the longer names being the fields of \<open>endpoints\<close>.
\<close>

text \<open>\<open>xs.map(f)\<close> where \<open>f\<close> may throw: the first exception, in element order, ends the
  whole expression.\<close>

fun map_result :: "('a \<Rightarrow> 'e + 'b) \<Rightarrow> 'a list \<Rightarrow> 'e + 'b list" where
  "map_result f [] = Inr []"
| "map_result f (x # xs) =
     (case f x of
        Inl e \<Rightarrow> Inl e
      | Inr y \<Rightarrow> (case map_result f xs of Inl e \<Rightarrow> Inl e | Inr ys \<Rightarrow> Inr (y # ys)))"

definition newline :: string where
  "newline = [CHR 0x0A]"

definition gpxHeader :: string where
  \<open>gpxHeader =
     ''<?xml version="1.0" encoding="UTF-8"?>'' @ newline @
     ''<gpx version="1.1" creator="CustomConverter" xmlns="http://www.topografix.com/GPX/1/1">'' @
     newline\<close>

definition gpxFooter :: string where
  \<open>gpxFooter = ''</gpx>''\<close>

definition wpt :: "string \<Rightarrow> string \<Rightarrow> string \<Rightarrow> string" where
  \<open>wpt lon lat label =
     ''<wpt lon="'' @ lon @ ''" lat="'' @ lat @ ''">'' @ newline @
     ''  <name>'' @ label @ ''</name>'' @ newline @
     ''</wpt>'' @ newline\<close>

definition waypoints ::
  "'n number_ops \<Rightarrow> 'n geojson_object \<Rightarrow> string \<Rightarrow> string \<Rightarrow> gpx_error + string" where
  "waypoints N g orig dest =
     (case features g of
        None \<Rightarrow> Inl TypeError
      | Some [] \<Rightarrow> Inl EndpointsNotFound
      | Some (f # _) \<Rightarrow>
          (case geometry f of
             None \<Rightarrow> Inl TypeError
           | Some gm \<Rightarrow>
               (case (js_index (coordinates gm) 0, js_last (coordinates gm)) of
                  (Some firstCoord, Some lastCoord) \<Rightarrow>
                    if \<not> js_truthy N firstCoord \<or> \<not> js_truthy N lastCoord
                    then Inl EndpointsNotFound
                    else
                      (case (js_index firstCoord 0, js_index firstCoord 1,
                             js_index lastCoord 0, js_index lastCoord 1) of
                         (Some a, Some b, Some c, Some d) \<Rightarrow>
                           Inr (newline @
                                wpt (js_string N a) (js_string N b) orig @
                                wpt (js_string N c) (js_string N d) dest)
                       | _ \<Rightarrow> Inl TypeError)
                | _ \<Rightarrow> Inl TypeError)))"

definition trkpt_lon_lat :: "'n number_ops \<Rightarrow> 'n jsval \<Rightarrow> gpx_error + string" where
  \<open>trkpt_lon_lat N coord =
     (case (js_index coord 0, js_index coord 1) of
        (Some a, Some b) \<Rightarrow>
          Inr (''<trkpt lon="'' @ js_string N a @ ''" lat="'' @ js_string N b @ ''"></trkpt>'')
      | _ \<Rightarrow> Inl TypeError)\<close>

definition track_name :: "'n number_ops \<Rightarrow> 'n feature \<Rightarrow> string" where
  "track_name N f =
     (if js_truthy N (properties_name f) then js_string N (properties_name f) else ''Rota'')"

definition trk :: "'n number_ops \<Rightarrow> 'n feature \<Rightarrow> gpx_error + string" where
  "trk N f =
     (case geometry f of
        None \<Rightarrow> Inl TypeError
      | Some gm \<Rightarrow>
          if geom_type gm = ''LineString'' then
            (case coordinates gm of
               Arr cs \<Rightarrow>
                 (case map_result (trkpt_lon_lat N) cs of
                    Inl e \<Rightarrow> Inl e
                  | Inr pts \<Rightarrow>
                      Inr (''<trk><name>'' @ track_name N f @ ''</name><trkseg>'' @
                           js_join newline pts @ ''</trkseg></trk>''))
             | _ \<Rightarrow> Inl TypeError)
          else Inr [])"

definition gpxBody :: "'n number_ops \<Rightarrow> 'n geojson_object \<Rightarrow> gpx_error + string" where
  "gpxBody N g =
     (case features g of
        None \<Rightarrow> Inl TypeError
      | Some fs \<Rightarrow>
          (case map_result (trk N) fs of
             Inl e \<Rightarrow> Inl e
           | Inr ts \<Rightarrow> Inr (js_join newline ts)))"

definition geojsonToGpx ::
  "'n number_ops \<Rightarrow> 'n geojson_object option \<Rightarrow> string \<Rightarrow> string \<Rightarrow> gpx_error + string" where
  "geojsonToGpx N gj orig dest =
     (case gj of
        None \<Rightarrow> Inl InvalidGeoJSON
      | Some g \<Rightarrow>
          if object_type g \<noteq> ''FeatureCollection'' then Inl InvalidGeoJSON
          else
            (case waypoints N g orig dest of
               Inl e \<Rightarrow> Inl e
             | Inr w \<Rightarrow>
                 (case gpxBody N g of
                    Inl e \<Rightarrow> Inl e
                  | Inr body \<Rightarrow> Inr (gpxHeader @ w @ body @ gpxFooter))))"

section \<open>Application state\<close>

text \<open>
  The interfaces \<open>RouteDetails\<close> and \<open>Pattern\<close>.  Field names are global in a theory, so
  \<open>RouteDetails.long_name\<close> is \<open>line_long_name\<close>, \<open>RouteDetails.patterns\<close> is
  \<open>pattern_ids\<close> and \<open>Pattern.id\<close> is \<open>pattern_id\<close>; \<open>route_data\<close> is the part of a route
  record that the code reads.
\<close>

record RouteDetails =
  short_name :: string
  line_long_name :: string
  municipalities :: "string list"
  localities :: "string list"
  pattern_ids :: "string list"
  routes :: "string list"

record Pattern =
  pattern_id :: string
  headsign :: string
  long_name :: string
  shape_id :: string
  route_id :: string
  route_long_name :: string

record route_data =
  route_data_long_name :: string

text \<open>
  The messages stored by \<open>setError\<close>, one constructor for each (quoted below without
  their diacritics); the empty string is \<open>None\<close> in the state.
\<close>

datatype app_error =
    EmptyRouteNumber          \<comment> \<open>\<open>Por favor, insira o numero da rota.\<close>\<close>
  | RouteNotFound             \<comment> \<open>\<open>Rota nao encontrada\<close>\<close>
  | PatternLoadFailed string  \<comment> \<open>\<open>Erro ao carregar o padrao ${patternId}\<close>\<close>
  | RouteLoadFailed string    \<comment> \<open>\<open>Erro ao carregar a rota ${patternData.route_id}\<close>\<close>
  | ShapeLoadFailed           \<comment> \<open>\<open>Erro ao carregar o shape\<close>\<close>
  | NothingSelected           \<comment> \<open>\<open>Nenhum padrao selecionado ou dados de forma indisponiveis.\<close>\<close>
  | GpxFailed                 \<comment> \<open>\<open>Erro ao gerar arquivo GPX\<close>\<close>
  | RuntimeMessage string     \<comment> \<open>\<open>err.message\<close> of an exception raised by \<open>fetch\<close> or by
                                  \<open>response.json()\<close>: the text is the runtime's\<close>

record 'n app_state =
  routeNumber :: string
  routeDetails :: "RouteDetails option"
  patterns :: "Pattern list"
  selectedPattern :: "Pattern option"
  shapeData :: "'n Shape option"
  loading :: bool
  error :: "app_error option"

section \<open>The download handler \<open>downloadGPX\<close>\<close>

text \<open>
  White space as removed by \<open>trim\<close> and matched by \<open>\s\<close>: the white space and line
  terminator code units of the language.  Below 256 these are tab, line feed, vertical tab,
  form feed, carriage return, space and the no-break space; the others (\<open>U+1680\<close>,
  \<open>U+2000\<close> to \<open>U+200A\<close>, \<open>U+2028\<close>, \<open>U+2029\<close>, \<open>U+202F\<close>, \<open>U+205F\<close>, \<open>U+3000\<close>,
  \<open>U+FEFF\<close>) are not code units of the strings of the model.
\<close>

definition js_whitespace :: "char \<Rightarrow> bool" where
  "js_whitespace c \<longleftrightarrow>
     c \<in> {CHR 0x09, CHR 0x0A, CHR 0x0B, CHR 0x0C, CHR 0x0D, CHR 0x20, CHR 0xA0}"

definition js_trim :: "string \<Rightarrow> string" where
  "js_trim s = rev (dropWhile js_whitespace (rev (dropWhile js_whitespace s)))"

text \<open>\<open>s.replace(/\s+/g, '-')\<close>: every maximal run of white space becomes one hyphen; the
  flag tells whether the previous character belonged to such a run.\<close>

fun replace_spaces_from :: "bool \<Rightarrow> string \<Rightarrow> string" where
  "replace_spaces_from in_run [] = []"
| "replace_spaces_from in_run (c # cs) =
     (if js_whitespace c
      then (if in_run then replace_spaces_from True cs
            else CHR ''-'' # replace_spaces_from True cs)
      else c # replace_spaces_from False cs)"

definition replace_spaces :: "string \<Rightarrow> string" where
  "replace_spaces s = replace_spaces_from False s"

definition trkpt_lat_lon :: "'n number_ops \<Rightarrow> 'n jsval \<Rightarrow> gpx_error + string" where
  \<open>trkpt_lat_lon N coord =
     (case (js_index coord 1, js_index coord 0) of
        (Some b, Some a) \<Rightarrow>
          Inr (''      <trkpt lat="'' @ js_string N b @ ''" lon="'' @ js_string N a @
               ''"></trkpt>'')
      | _ \<Rightarrow> Inl TypeError)\<close>

definition gpxData :: "'n number_ops \<Rightarrow> Pattern \<Rightarrow> 'n Shape \<Rightarrow> gpx_error + string" where
  \<open>gpxData N p sh =
     (case geojson sh of
        None \<Rightarrow> Inl TypeError
      | Some g \<Rightarrow>
          (case geometry g of
             None \<Rightarrow> Inl TypeError
           | Some gm \<Rightarrow>
               (case coordinates gm of
                  Arr cs \<Rightarrow>
                    (case map_result (trkpt_lat_lon N) cs of
                       Inl e \<Rightarrow> Inl e
                     | Inr pts \<Rightarrow>
                         Inr (js_trim
                           (''<?xml version="1.0" encoding="UTF-8"?>'' @ newline @
                            ''<gpx version="1.1" creator="Carris Metropolitana">'' @ newline @
                            ''  <trk>'' @ newline @
                            ''    <name>'' @ headsign p @ ''</name>'' @ newline @
                            ''    <trkseg>'' @ newline @
                            js_join newline pts @ newline @
                            ''    </trkseg>'' @ newline @
                            ''  </trk>'' @ newline @
                            ''</gpx>'')))
                | _ \<Rightarrow> Inl TypeError)))\<close>

record download =
  file_name :: string
  file_content :: string

text \<open>
  The handler returns the next state and the file handed to the browser, if any.  Every
  exception inside the \<open>try\<close> block is caught and replaced by the fixed message.
\<close>

definition downloadGPX :: "'n number_ops \<Rightarrow> 'n app_state \<Rightarrow> 'n app_state \<times> download option" where
  "downloadGPX N s =
     (case (selectedPattern s, shapeData s, routeDetails s) of
        (Some p, Some sh, Some rd) \<Rightarrow>
          (case gpxData N p sh of
             Inl e \<Rightarrow> (s\<lparr>error := Some GpxFailed\<rparr>, None)
           | Inr doc \<Rightarrow>
               (s, Some \<lparr> file_name = ''rota-'' @ short_name rd @ ''-'' @
                                         replace_spaces (headsign p) @ ''.gpx'',
                          file_content = doc \<rparr>))
      | _ \<Rightarrow> (s\<lparr>error := Some NothingSelected\<rparr>, None))"

section \<open>The remote API\<close>

text \<open>
  \<open>fetch\<close> followed by the test of \<open>response.ok\<close> and by \<open>response.json()\<close>.  The outcome
  is a parsed document (\<open>Ok\<close>), a status that is not a success (\<open>NotOk\<close>), or an exception
  with its message (\<open>Failed\<close>): the promise of \<open>fetch\<close> is rejected when the request cannot
  be made, and that of \<open>json()\<close> when the body is not a JSON document.  The four end points are
  parameters of the model.
\<close>

datatype 'a response = Ok 'a | NotOk | Failed string

record 'n api =
  get_line :: "string \<Rightarrow> RouteDetails response"
  get_pattern :: "string \<Rightarrow> Pattern response"
  get_route :: "string \<Rightarrow> route_data response"
  get_shape :: "string \<Rightarrow> 'n Shape response"

datatype request = GetLine string | GetPattern string | GetRoute string | GetShape string

section \<open>The search handler \<open>searchRoute\<close>\<close>

text \<open>
  The body of the asynchronous function mapped over \<open>data.patterns\<close>: the pattern is fetched,
  then its route, and the route's long name is merged into the pattern.
\<close>

definition pattern_task :: "'n api \<Rightarrow> string \<Rightarrow> app_error + Pattern" where
  "pattern_task A patternId =
     (case get_pattern A patternId of
        NotOk \<Rightarrow> Inl (PatternLoadFailed patternId)
      | Failed msg \<Rightarrow> Inl (RuntimeMessage msg)
      | Ok patternData \<Rightarrow>
          (case get_route A (route_id patternData) of
             NotOk \<Rightarrow> Inl (RouteLoadFailed (route_id patternData))
           | Failed msg \<Rightarrow> Inl (RuntimeMessage msg)
           | Ok routeData \<Rightarrow>
               Inr (patternData\<lparr> route_long_name := route_data_long_name routeData,
                                  long_name := route_data_long_name routeData \<rparr>)))"

text \<open>
  \<open>Promise.all\<close> over promises whose outcomes are \<open>tasks\<close>.  The promises settle one at a
  time, in the order given by a list of indices.  A fulfilled promise stores its value in the
  slot of its own index, and the aggregate is fulfilled once every slot is filled; the first
  promise to reject rejects the aggregate, and nothing that settles afterwards changes it.
\<close>

datatype ('e, 'a) promise = Pending "'a option list" | Fulfilled "'a list" | Rejected 'e

definition settle :: "('e + 'a) list \<Rightarrow> ('e, 'a) promise \<Rightarrow> nat \<Rightarrow> ('e, 'a) promise" where
  "settle tasks pr i =
     (case pr of
        Pending slots \<Rightarrow>
          if i < length tasks then
            (case tasks ! i of
               Inl e \<Rightarrow> Rejected e
             | Inr v \<Rightarrow>
                 (case those (slots[i := Some v]) of
                    Some vs \<Rightarrow> Fulfilled vs
                  | None \<Rightarrow> Pending (slots[i := Some v])))
          else pr
      | _ \<Rightarrow> pr)"

definition promise_all :: "('e + 'a) list \<Rightarrow> nat list \<Rightarrow> ('e, 'a) promise" where
  "promise_all tasks order =
     foldl (settle tasks)
       (if tasks = [] then Fulfilled [] else Pending (replicate (length tasks) None)) order"

text \<open>
  The aggregate after the tasks with index in \<open>D\<close>, all of them fulfilled, have settled; used
  to state what \<open>promise_all\<close> computes.
\<close>

definition fulfilled_by :: "('e + 'a) list \<Rightarrow> nat set \<Rightarrow> ('e, 'a) promise" where
  "fulfilled_by tasks D =
     (if {..<length tasks} \<subseteq> D then Fulfilled (map projr tasks)
      else Pending (map (\<lambda>i. if i \<in> D then Some (projr (tasks ! i)) else None)
                        [0..<length tasks]))"

text \<open>
  \<open>order\<close> is the order in which the pattern tasks settle.  The tasks are run one at a time:
  an index in \<open>order\<close> stands for the arrival of the pattern response of that task, the route
  request that follows it and the arrival of the route response.  The pattern requests are all
  issued when the tasks are created; a route request is issued when its task runs, at the
  first occurrence of its index.
\<close>

definition route_requests :: "'n api \<Rightarrow> string list \<Rightarrow> nat list \<Rightarrow> request list" where
  "route_requests A ids order =
     concat (map (\<lambda>i. if i < length ids
                        then (case get_pattern A (ids ! i) of
                                Ok patternData \<Rightarrow> [GetRoute (route_id patternData)]
                              | _ \<Rightarrow> [])
                        else [])
                 (rev (remdups (rev order))))"

text \<open>
  The handler returns the state in which it stops and the requests issued by then, in the
  order of their issue.  While the aggregate is pending the handler is suspended at its
  \<open>await\<close>, with \<open>loading\<close> still set.  An exception that is not an \<open>Error\<close> object
  would store the fixed message \<open>Erro ao buscar rota\<close>; \<open>fetch\<close> and \<open>json()\<close> raise none.
\<close>

definition searchRoute ::
  "'n api \<Rightarrow> nat list \<Rightarrow> 'n app_state \<Rightarrow> 'n app_state \<times> request list" where
  "searchRoute A order s =
     (if js_trim (routeNumber s) = [] then (s\<lparr>error := Some EmptyRouteNumber\<rparr>, [])
      else
        let s1 = s\<lparr> loading := True, error := None, routeDetails := None,
                    selectedPattern := None, shapeData := None, patterns := [] \<rparr>
        in (case get_line A (routeNumber s) of
              NotOk \<Rightarrow>
                (s1\<lparr>error := Some RouteNotFound, loading := False\<rparr>, [GetLine (routeNumber s)])
            | Failed msg \<Rightarrow>
                (s1\<lparr>error := Some (RuntimeMessage msg), loading := False\<rparr>,
                 [GetLine (routeNumber s)])
            | Ok data \<Rightarrow>
                let s2 = s1\<lparr>routeDetails := Some data\<rparr>;
                    reqs = GetLine (routeNumber s) # map GetPattern (pattern_ids data) @
                           route_requests A (pattern_ids data) order
                in (case promise_all (map (pattern_task A) (pattern_ids data)) order of
                      Fulfilled patternsData \<Rightarrow>
                        (s2\<lparr>patterns := patternsData, loading := False\<rparr>, reqs)
                    | Rejected err \<Rightarrow> (s2\<lparr>error := Some err, loading := False\<rparr>, reqs)
                    | Pending slots \<Rightarrow> (s2, reqs))))"

section \<open>The selection handler \<open>fetchPattern\<close>\<close>

text \<open>
  \<open>fetchPattern\<close> runs in two parts: up to its \<open>await\<close> it stores the selection and issues
  the shape request; when the response arrives it stores the shape or the error message.
  Between the two parts other handlers run.
\<close>

definition fetchPattern_begin :: "Pattern \<Rightarrow> 'n app_state \<Rightarrow> 'n app_state" where
  "fetchPattern_begin pattern s = s\<lparr>selectedPattern := Some pattern\<rparr>"

definition fetchPattern_resume :: "'n api \<Rightarrow> Pattern \<Rightarrow> 'n app_state \<Rightarrow> 'n app_state" where
  "fetchPattern_resume A pattern s =
     (case get_shape A (shape_id pattern) of
        NotOk \<Rightarrow> s\<lparr>error := Some ShapeLoadFailed\<rparr>
      | Failed msg \<Rightarrow> s\<lparr>error := Some (RuntimeMessage msg)\<rparr>
      | Ok shape \<Rightarrow> s\<lparr>shapeData := Some shape\<rparr>)"

text \<open>
  The interleavings of selections and arriving responses: \<open>Select p\<close> is a click on pattern
  \<open>p\<close>, \<open>Arrive i\<close> is the arrival of the response to the \<open>i\<close>-th request still in flight.
\<close>

datatype event = Select Pattern | Arrive nat

fun step :: "'n api \<Rightarrow> 'n app_state \<times> Pattern list \<Rightarrow> event \<Rightarrow> 'n app_state \<times> Pattern list" where
  "step A (s, inflight) (Select p) = (fetchPattern_begin p s, inflight @ [p])"
| "step A (s, inflight) (Arrive i) =
     (if i < length inflight
      then (fetchPattern_resume A (inflight ! i) s, take i inflight @ drop (Suc i) inflight)
      else (s, inflight))"

definition run :: "'n api \<Rightarrow> 'n app_state \<Rightarrow> event list \<Rightarrow> 'n app_state \<times> Pattern list" where
  "run A s evs = foldl (step A) (s, []) evs"

section \<open>Well-formed shapes\<close>

text \<open>
  The shapes the claims speak about, built from typed data: a position is a pair of numbers
  (longitude, latitude), a line is a list of positions.
\<close>

definition position :: "'n \<times> 'n \<Rightarrow> 'n jsval" where
  "position p = Arr [Num (fst p), Num (snd p)]"

definition line_string :: "('n \<times> 'n) list \<Rightarrow> 'n geometry" where
  "line_string ps = \<lparr> geom_type = ''LineString'', coordinates = Arr (map position ps) \<rparr>"

definition line_feature :: "'n jsval \<Rightarrow> ('n \<times> 'n) list \<Rightarrow> 'n feature" where
  "line_feature nm ps = \<lparr> geometry = Some (line_string ps), properties_name = nm \<rparr>"

definition feature_collection :: "'n feature list \<Rightarrow> 'n geojson_object" where
  "feature_collection fs =
     \<lparr> geometry = None, properties_name = Undefined,
       object_type = ''FeatureCollection'', features = Some fs \<rparr>"

definition single_feature :: "'n feature \<Rightarrow> 'n geojson_object" where
  "single_feature f =
     \<lparr> geometry = geometry f, properties_name = properties_name f,
       object_type = ''Feature'', features = None \<rparr>"

text \<open>
  A position may have entries after its longitude and latitude, such as an elevation; a
  geometry that is not a line has any type but \<open>LineString\<close> and any coordinates.
\<close>

fun position_ext :: "'n \<times> 'n \<times> 'n list \<Rightarrow> 'n jsval" where
  "position_ext (x, y, zs) = Arr (Num x # Num y # map Num zs)"

fun lon_lat :: "'n \<times> 'n \<times> 'n list \<Rightarrow> 'n \<times> 'n" where
  "lon_lat (x, y, zs) = (x, y)"

definition line_feature_ext :: "'n jsval \<Rightarrow> ('n \<times> 'n \<times> 'n list) list \<Rightarrow> 'n feature" where
  "line_feature_ext nm qs =
     \<lparr> geometry = Some \<lparr> geom_type = ''LineString'', coordinates = Arr (map position_ext qs) \<rparr>,
       properties_name = nm \<rparr>"





text \<open>The track points as the two exporters write them for a position.\<close>

definition track_point_lon_lat :: "'n number_ops \<Rightarrow> 'n \<times> 'n \<Rightarrow> string" where
  \<open>track_point_lon_lat N p =
     ''<trkpt lon="'' @ num_string N (fst p) @ ''" lat="'' @ num_string N (snd p) @
     ''"></trkpt>''\<close>

definition track_point_lat_lon :: "'n number_ops \<Rightarrow> 'n \<times> 'n \<Rightarrow> string" where
  \<open>track_point_lat_lon N p =
     ''      <trkpt lat="'' @ num_string N (snd p) @ ''" lon="'' @ num_string N (fst p) @
     ''"></trkpt>''\<close>

section \<open>Sample data\<close>

text \<open>Numbers given by their decimal text; zero and \<open>NaN\<close> are the numbers that are falsy.\<close>

definition decimal :: "string number_ops" where
  "decimal = \<lparr> num_string = (\<lambda>s. s), num_falsy = (\<lambda>s. s = ''0'' \<or> s = ''NaN'') \<rparr>"

definition sample_line :: "(string \<times> string) list" where
  "sample_line = [(''-9.14'', ''38.7''), (''-9.1'', ''38.75'')]"

definition sample_line_ext :: "(string \<times> string \<times> string list) list" where
  "sample_line_ext = [(''-9.14'', ''38.7'', [''12.5'']), (''-9.1'', ''38.75'', [])]"

definition sample_pattern :: "string \<Rightarrow> string \<Rightarrow> string \<Rightarrow> string \<Rightarrow> Pattern" where
  "sample_pattern i h sid rid =
     \<lparr> pattern_id = i, headsign = h, long_name = [], shape_id = sid, route_id = rid,
       route_long_name = [] \<rparr>"

definition sample_details :: RouteDetails where
  "sample_details =
     \<lparr> short_name = ''1001'', line_long_name = ''Alfragide - Reboleira'',
       municipalities = [], localities = [], pattern_ids = [''p1'', ''p2''], routes = [] \<rparr>"

definition sample_shape :: "string \<Rightarrow> string Shape" where
  "sample_shape sid =
     \<lparr> geojson = Some (single_feature (line_feature (Str sid) sample_line)) \<rparr>"

text \<open>A server that knows one line with two patterns; \<open>broken\<close> is a route identifier for
  which it answers with a failure status.\<close>

definition sample_api :: "string \<Rightarrow> string api" where
  "sample_api broken =
     \<lparr> get_line = (\<lambda>i. if i = ''1001'' then Ok sample_details else NotOk),
       get_pattern = (\<lambda>i.
          if i = ''p1'' then Ok (sample_pattern ''p1'' ''Alfragide - Reboleira'' ''s1'' ''r1'')
          else if i = ''p2'' then Ok (sample_pattern ''p2'' ''Reboleira - Alfragide'' ''s2'' ''r2'')
          else NotOk),
       get_route = (\<lambda>i.
          if i = broken then NotOk
          else if i = ''r1'' \<or> i = ''r2''
          then Ok \<lparr> route_data_long_name = ''Alfragide - Reboleira'' \<rparr>
          else NotOk),
       get_shape = (\<lambda>i. if i = ''s1'' \<or> i = ''s2'' then Ok (sample_shape i) else NotOk) \<rparr>"

text \<open>The same server when the request for the second pattern cannot be made.\<close>

definition offline_api :: "string api" where
  "offline_api =
     (sample_api [])\<lparr> get_pattern := (\<lambda>i.
        if i = ''p2'' then Failed ''Failed to fetch'' else get_pattern (sample_api []) i) \<rparr>"

definition idle_state :: "string \<Rightarrow> string app_state" where
  "idle_state rn =
     \<lparr> routeNumber = rn, routeDetails = None, patterns = [], selectedPattern = None,
       shapeData = None, loading = False, error = None \<rparr>"

definition loaded_state :: "Pattern \<Rightarrow> string geojson_object \<Rightarrow> string app_state" where
  "loaded_state p g =
     \<lparr> routeNumber = ''1001'', routeDetails = Some sample_details, patterns = [p],
       selectedPattern = Some p, shapeData = Some \<lparr> geojson = Some g \<rparr>, loading = False,
       error = None \<rparr>"

section \<open>Properties of the string operations\<close>

lemma split_on_nonempty: "split_on sep cur s \<noteq> []"
  by (induction sep cur s rule: split_on.induct) auto

lemma js_join_Cons: "js_join sep (x # xs) = (if xs = [] then x else x @ sep @ js_join sep xs)"
  by (cases xs) auto

lemma js_join_split_on: "js_join sep (split_on sep cur s) = cur @ s"
proof (induction sep cur s rule: split_on.induct)
  case (1 sep cur)
  show ?case by simp
next
  case (2 sep cur c cs)
  show ?case
  proof (cases "sep \<noteq> [] \<and> prefix sep (c # cs)")
    case True
    then obtain r where r: "c # cs = sep @ r" by (auto simp: prefix_def)
    have d: "drop (length sep) (c # cs) = r" using r by simp
    from True 2(1) d have "js_join sep (split_on sep [] r) = r" by simp
    have e: "split_on sep cur (c # cs) = cur # split_on sep [] r"
      using True d by (simp del: drop_Suc_Cons)
    have "js_join sep (split_on sep cur (c # cs)) = cur @ sep @ r"
      unfolding e using \<open>js_join sep (split_on sep [] r) = r\<close>
      by (simp add: js_join_Cons split_on_nonempty)
    then show ?thesis using r by simp
  next
    case False
    with 2(2) show ?thesis by auto
  qed
qed

lemma split_on_no_sep:
  "\<not> sublist sep (cur @ s) \<Longrightarrow> split_on sep cur s = [cur @ s]"
proof (induction sep cur s rule: split_on.induct)
  case (1 sep cur)
  show ?case by simp
next
  case (2 sep cur c cs)
  have "\<not> prefix sep (c # cs)"
  proof
    assume "prefix sep (c # cs)"
    then obtain r where "c # cs = sep @ r" by (auto simp: prefix_def)
    then have "cur @ c # cs = cur @ sep @ r" by simp
    then have "sublist sep (cur @ c # cs)" unfolding sublist_def by blast
    with 2(3) show False by simp
  qed
  with 2 show ?case by simp
qed

lemma sublist_delimiter_mid: "sublist '' - '' (a @ CHR '' '' # CHR ''-'' # CHR '' '' # b)"
  using sublist_appendI[of "'' - ''" a b] by simp

lemma suffix_space_hyphen: "suffix '' -'' (a @ [CHR '' '', CHR ''-''])"
  by (simp add: suffix_def)

lemma js_join_Cons_Cons: "js_join sep ((c # t) # ts) = c # js_join sep (t # ts)"
  by (cases ts) simp_all

lemma js_join_Nil_Cons:
  "js_join sep ([] # ts) = (if ts = [] then [] else sep @ js_join sep ts)"
  by (cases ts) simp_all

lemma split_on_join:
  assumes "\<not> sublist '' - '' (cur @ t)"
    and "ts \<noteq> [] \<longrightarrow> \<not> suffix '' -'' (cur @ t)"
    and "\<forall>u \<in> set ts. \<not> sublist '' - '' u"
    and "\<forall>u \<in> set (butlast ts). \<not> suffix '' -'' u"
  shows "split_on '' - '' cur (js_join '' - '' (t # ts)) = (cur @ t) # ts"
  using assms
proof (induction ts arbitrary: t cur)
  case Nil
  then show ?case
  proof (induction t arbitrary: cur)
    case Nil
    show ?case by simp
  next
    case (Cons c t)
    have np: "\<not> prefix '' - '' (c # t)"
    proof
      assume "prefix '' - '' (c # t)"
      then obtain r where "c # t = '' - '' @ r" by (auto simp: prefix_def)
      then have "cur @ c # t = cur @ '' - '' @ r" by simp
      then have "sublist '' - '' (cur @ c # t)" unfolding sublist_def by blast
      with Cons.prems(1) show False by simp
    qed
    have "split_on '' - '' (cur @ [c]) (js_join '' - '' [t]) = [(cur @ [c]) @ t]"
      using Cons.prems by (intro Cons.IH) simp_all
    with np show ?case by simp
  qed
next
  case (Cons u ts)
  have u1: "\<not> sublist '' - '' ([] @ u)" using Cons.prems(3) by simp
  have u2: "ts \<noteq> [] \<longrightarrow> \<not> suffix '' -'' ([] @ u)" using Cons.prems(4) by (cases ts) auto
  have u3: "\<forall>v \<in> set ts. \<not> sublist '' - '' v" using Cons.prems(3) by simp
  have u4: "\<forall>v \<in> set (butlast ts). \<not> suffix '' -'' v" using Cons.prems(4) by (cases ts) auto
  note outer = Cons.IH[OF u1 u2 u3 u4]
  from Cons.prems(1,2) show ?case
  proof (induction t arbitrary: cur)
    case Nil
    show ?case using outer by (simp add: js_join_Nil_Cons)
  next
    case (Cons c t)
    have np: "\<not> prefix '' - '' (c # js_join '' - '' (t # u # ts))"
    proof
      assume pr: "prefix '' - '' (c # js_join '' - '' (t # u # ts))"
      show False
      proof (cases t)
        case Nil
        with pr show False by simp
      next
        case (Cons d t')
        note t = this
        show False
        proof (cases t')
          case Nil
          with pr t have "c = CHR '' ''" "d = CHR ''-''" by auto
          with t Nil have "cur @ c # t = cur @ [CHR '' '', CHR ''-'']" by simp
          with suffix_space_hyphen[of cur] Cons.prems(2) show False by simp
        next
          case (Cons e t'')
          with pr t have "c = CHR '' ''" "d = CHR ''-''" "e = CHR '' ''"
            by (auto simp: js_join_Cons_Cons)
          with t Cons have "cur @ c # t = cur @ CHR '' '' # CHR ''-'' # CHR '' '' # t''" by simp
          with sublist_delimiter_mid[of cur t''] Cons.prems(1) show False by simp
        qed
      qed
    qed
    have "split_on '' - '' (cur @ [c]) (js_join '' - '' (t # u # ts)) = ((cur @ [c]) @ t) # u # ts"
      using Cons.prems by (intro Cons.IH) simp_all
    with np show ?case by (simp add: js_join_Cons_Cons del: js_join.simps)
  qed
qed

lemma split_on_segments:
  assumes "sep = '' - ''"
    and "\<forall>k < length cur. \<not> prefix sep (drop k (cur @ s))"
  shows "(\<forall>t \<in> set (split_on sep cur s). \<not> sublist sep t) \<and>
         (\<forall>t \<in> set (butlast (split_on sep cur s)). \<not> suffix '' -'' t)"
  using assms
proof (induction sep cur s rule: split_on.induct)
  case (1 sep cur)
  have "\<not> sublist sep cur"
  proof
    assume "sublist sep cur"
    then obtain a b where ab: "cur = a @ sep @ b" by (auto simp: sublist_def)
    then have "length a < length cur" using 1(1) by simp
    moreover have "prefix sep (drop (length a) (cur @ []))" using ab by simp
    ultimately show False using 1(2) by blast
  qed
  then show ?case by simp
next
  case (2 sep cur c cs)
  show ?case
  proof (cases "prefix sep (c # cs)")
    case True
    have ns: "\<not> sublist sep cur"
    proof
      assume "sublist sep cur"
      then obtain a b where ab: "cur = a @ sep @ b" by (auto simp: sublist_def)
      then have "length a < length cur" using 2(3) by simp
      moreover have "prefix sep (drop (length a) (cur @ c # cs))" using ab by simp
      ultimately show False using 2(4) by blast
    qed
    have nx: "\<not> suffix '' -'' cur"
    proof
      assume "suffix '' -'' cur"
      then obtain a where a: "cur = a @ '' -''" by (auto simp: suffix_def)
      from True 2(3) have c: "c = CHR '' ''" by auto
      define w where "w = cur @ c # cs"
      have "w = a @ sep @ cs" unfolding w_def a c 2(3) by simp
      then have "prefix sep (drop (length a) w)" by simp
      then have "prefix sep (drop (length a) (cur @ c # cs))" unfolding w_def .
      moreover have "length a < length cur" using a by simp
      ultimately show False using 2(4) by blast
    qed
    have "(\<forall>t \<in> set (split_on sep [] (drop (length sep) (c # cs))). \<not> sublist sep t) \<and>
          (\<forall>t \<in> set (butlast (split_on sep [] (drop (length sep) (c # cs)))). \<not> suffix '' -'' t)"
    proof (rule 2(1))
      show "sep \<noteq> [] \<and> prefix sep (c # cs)" using True 2(3) by auto
      show "sep = '' - ''" by (rule 2(3))
      show "\<forall>k < length []. \<not> prefix sep (drop k ([] @ drop (length sep) (c # cs)))" by simp
    qed
    moreover have "split_on sep cur (c # cs) = cur # split_on sep [] (drop (length sep) (c # cs))"
      using True 2(3) by (auto simp del: drop_Suc_Cons)
    ultimately show ?thesis
      using ns nx by (simp add: split_on_nonempty del: drop_Suc_Cons split_on.simps)
  next
    case False
    have inv: "\<forall>k < length (cur @ [c]). \<not> prefix sep (drop k ((cur @ [c]) @ cs))"
    proof (intro allI impI)
      fix k assume "k < length (cur @ [c])"
      then consider "k < length cur" | "k = length cur" by fastforce
      then show "\<not> prefix sep (drop k ((cur @ [c]) @ cs))"
      proof cases
        case 1
        with 2(4) show ?thesis by simp
      next
        case 2
        with False show ?thesis by simp
      qed
    qed
    have "(\<forall>t \<in> set (split_on sep (cur @ [c]) cs). \<not> sublist sep t) \<and>
          (\<forall>t \<in> set (butlast (split_on sep (cur @ [c]) cs)). \<not> suffix '' -'' t)"
    proof (rule 2(2))
      show "\<not> (sep \<noteq> [] \<and> prefix sep (c # cs))" using False by simp
      show "sep = '' - ''" by (rule 2(3))
      show "\<forall>k < length (cur @ [c]). \<not> prefix sep (drop k ((cur @ [c]) @ cs))" by (rule inv)
    qed
    moreover have "split_on sep cur (c # cs) = split_on sep (cur @ [c]) cs"
      using False by simp
    ultimately show ?thesis by (simp del: split_on.simps)
  qed
qed

lemma js_at_0: "xs \<noteq> [] \<Longrightarrow> js_at xs 0 = Some (hd xs)"
  by (cases xs) (auto simp: js_at_def)

lemma js_at_last: "xs \<noteq> [] \<Longrightarrow> js_at xs (int (length xs) - 1) = Some (last xs)"
  by (cases xs rule: rev_cases) (auto simp: js_at_def nth_append)

text \<open>
  Claim C6.  \<open>getRouteEndpoints\<close> splits the headsign on the literal delimiter \<open>" - "\<close>: the
  origin is the first segment and the destination the last one.  The segments are those of
  the scan from the left: joined by the delimiter they give the headsign back, none of them
  contains the delimiter, and none but the last ends with a space and a hyphen, which with
  the space that follows would be an earlier delimiter.  Conversely every list of such
  segments is what the split returns for their join.  So a headsign without the delimiter is
  both its origin and its destination, and a headsign with several delimiters yields its
  first and its last token.
\<close>

theorem getRouteEndpoints_first_last:
  "origin (getRouteEndpoints h) = Some (hd (js_split h '' - '')) \<and>
   destination (getRouteEndpoints h) = Some (last (js_split h '' - '')) \<and>
   js_join '' - '' (js_split h '' - '') = h \<and>
   (\<forall>t \<in> set (js_split h '' - ''). \<not> sublist '' - '' t) \<and>
   (\<forall>t \<in> set (butlast (js_split h '' - '')). \<not> suffix '' -'' t) \<and>
   (\<not> sublist '' - '' h \<longrightarrow>
      getRouteEndpoints h = \<lparr> origin = Some h, destination = Some h \<rparr>) \<and>
   (ts \<noteq> [] \<and> (\<forall>t \<in> set ts. \<not> sublist '' - '' t) \<and>
    (\<forall>t \<in> set (butlast ts). \<not> suffix '' -'' t) \<longrightarrow>
      js_split (js_join '' - '' ts) '' - '' = ts \<and>
      getRouteEndpoints (js_join '' - '' ts) =
        \<lparr> origin = Some (hd ts), destination = Some (last ts) \<rparr>)"
proof -
  have ne: "js_split x '' - '' \<noteq> []" for x
    by (simp add: js_split_def split_on_nonempty)
  have ep: "getRouteEndpoints x =
      \<lparr> origin = Some (hd (js_split x '' - '')), destination = Some (last (js_split x '' - '')) \<rparr>" for x
    using ne[of x] by (simp add: getRouteEndpoints_def Let_def js_at_0 js_at_last)
  have a: "js_join '' - '' (js_split h '' - '') = h"
    using js_join_split_on[of "'' - ''" "[]" h] by (simp add: js_split_def)
  have seg: "(\<forall>t \<in> set (js_split h '' - ''). \<not> sublist '' - '' t) \<and>
             (\<forall>t \<in> set (butlast (js_split h '' - '')). \<not> suffix '' -'' t)"
    unfolding js_split_def by (rule split_on_segments) simp_all
  have b: "getRouteEndpoints h = \<lparr> origin = Some h, destination = Some h \<rparr>"
    if "\<not> sublist '' - '' h"
  proof -
    have "js_split h '' - '' = [h]"
      using split_on_no_sep[of "'' - ''" "[]" h] that by (simp add: js_split_def)
    then show ?thesis by (simp add: ep)
  qed
  have c: "js_split (js_join '' - '' ts) '' - '' = ts \<and>
      getRouteEndpoints (js_join '' - '' ts) =
        \<lparr> origin = Some (hd ts), destination = Some (last ts) \<rparr>"
    if "ts \<noteq> [] \<and> (\<forall>t \<in> set ts. \<not> sublist '' - '' t) \<and>
        (\<forall>t \<in> set (butlast ts). \<not> suffix '' -'' t)"
  proof -
    from that obtain t ts' where ts: "ts = t # ts'" by (cases ts) auto
    have 1: "\<not> sublist '' - '' ([] @ t)" using that ts by simp
    have 2: "ts' \<noteq> [] \<longrightarrow> \<not> suffix '' -'' ([] @ t)" using that ts by (cases ts') auto
    have 3: "\<forall>u \<in> set ts'. \<not> sublist '' - '' u" using that ts by simp
    have 4: "\<forall>u \<in> set (butlast ts'). \<not> suffix '' -'' u" using that ts by (cases ts') auto
    have "js_split (js_join '' - '' ts) '' - '' = ts"
      using split_on_join[OF 1 2 3 4] unfolding ts js_split_def by simp
    then show ?thesis by (simp add: ep)
  qed
  show ?thesis using a b c seg by (simp add: ep)
qed

lemma no_sep_SingleTerm: "\<not> sublist '' - '' ''SingleTerm''"
  by code_simp

lemma sample_tokens:
  "\<not> sublist '' - '' ''Costa da Caparica''" "\<not> sublist '' - '' ''Cacilhas (Terminal)''"
  "\<not> sublist '' - '' ''Lisboa''" "\<not> suffix '' -'' ''Costa da Caparica''"
  "\<not> suffix '' -'' ''Cacilhas (Terminal)''"
  by code_simp+

theorem getRouteEndpoints_first_last_witness:
  "getRouteEndpoints ''SingleTerm'' =
     \<lparr> origin = Some ''SingleTerm'', destination = Some ''SingleTerm'' \<rparr> \<and>
   js_split ''Costa da Caparica - Cacilhas (Terminal) - Lisboa'' '' - '' =
     [''Costa da Caparica'', ''Cacilhas (Terminal)'', ''Lisboa''] \<and>
   getRouteEndpoints ''Costa da Caparica - Cacilhas (Terminal) - Lisboa'' =
     \<lparr> origin = Some ''Costa da Caparica'', destination = Some ''Lisboa'' \<rparr>"
  using getRouteEndpoints_first_last[of "''SingleTerm''"
          "[''Costa da Caparica'', ''Cacilhas (Terminal)'', ''Lisboa'']"]
        no_sep_SingleTerm sample_tokens
  by simp

section \<open>Properties of the handlers\<close>

text \<open>
  Claim C10.  When no pattern is selected, no shape is loaded or no line details are present,
  \<open>downloadGPX\<close> stores its error message and returns: no file is produced, and the selected
  pattern, the loaded shape and the line details are unchanged.
\<close>

theorem downloadGPX_nothing_selected:
  assumes "selectedPattern s = None \<or> shapeData s = None \<or> routeDetails s = None"
  shows "downloadGPX N s = (s\<lparr>error := Some NothingSelected\<rparr>, None) \<and>
         error (fst (downloadGPX N s)) = Some NothingSelected \<and>
         snd (downloadGPX N s) = None \<and>
         selectedPattern (fst (downloadGPX N s)) = selectedPattern s \<and>
         shapeData (fst (downloadGPX N s)) = shapeData s \<and>
         routeDetails (fst (downloadGPX N s)) = routeDetails s"
proof -
  have "downloadGPX N s = (s\<lparr>error := Some NothingSelected\<rparr>, None)"
    using assms by (auto simp: downloadGPX_def split: option.splits)
  then show ?thesis by simp
qed

theorem downloadGPX_nothing_selected_witness:
  "downloadGPX decimal (idle_state ''1001'') =
     ((idle_state ''1001'')\<lparr>error := Some NothingSelected\<rparr>, None)"
  using downloadGPX_nothing_selected[of "idle_state ''1001''" decimal]
  by (simp add: idle_state_def)

text \<open>
  Claim C8.  A line identifier that is empty after trimming makes \<open>searchRoute\<close> store the
  validation message and return without any request and without any other change of state;
  for every other identifier the first request issued is the lookup of the line, followed by
  the pattern and route requests when the lookup succeeds and by nothing otherwise.
\<close>

theorem searchRoute_validation:
  "(js_trim (routeNumber s) = [] \<longrightarrow>
      searchRoute A order s = (s\<lparr>error := Some EmptyRouteNumber\<rparr>, [])) \<and>
   (js_trim (routeNumber s) \<noteq> [] \<longrightarrow>
      snd (searchRoute A order s) =
        GetLine (routeNumber s) #
        (case get_line A (routeNumber s) of
           Ok data \<Rightarrow> map GetPattern (pattern_ids data) @
                      route_requests A (pattern_ids data) order
         | NotOk \<Rightarrow> []
         | Failed msg \<Rightarrow> []))"
  by (auto simp: searchRoute_def Let_def split: response.splits promise.splits)

lemma js_trim_1001_plain: "js_trim ''1001'' = ''1001''"
  by (simp add: js_trim_def js_whitespace_def)

lemma js_trim_blank: "js_trim [CHR 0x20, CHR 0x09, CHR 0xA0, CHR 0x0A] = []"
  by (simp add: js_trim_def js_whitespace_def)

lemma js_trim_1001: "js_trim '' 1001'' = ''1001''"
  by (simp add: js_trim_def js_whitespace_def)

theorem searchRoute_validation_witness:
  "searchRoute (sample_api []) [0, 1] (idle_state [CHR 0x20, CHR 0x09, CHR 0xA0, CHR 0x0A]) =
     ((idle_state [CHR 0x20, CHR 0x09, CHR 0xA0, CHR 0x0A])\<lparr>error := Some EmptyRouteNumber\<rparr>,
      []) \<and>
   snd (searchRoute (sample_api []) [0, 1] (idle_state '' 1001'')) = [GetLine '' 1001''] \<and>
   snd (searchRoute (sample_api []) [1, 0] (idle_state ''1001'')) =
     [GetLine ''1001'', GetPattern ''p1'', GetPattern ''p2'', GetRoute ''r2'', GetRoute ''r1'']"
  using searchRoute_validation[of "idle_state [CHR 0x20, CHR 0x09, CHR 0xA0, CHR 0x0A]"
          "sample_api []" "[0, 1]"]
        searchRoute_validation[of "idle_state '' 1001''" "sample_api []" "[0, 1]"]
        searchRoute_validation[of "idle_state ''1001''" "sample_api []" "[1, 0]"]
        js_trim_blank js_trim_1001 js_trim_1001_plain
  by (simp add: idle_state_def sample_api_def sample_details_def route_requests_def
        sample_pattern_def)

section \<open>Properties of the search handler\<close>

lemma those_map_filled:
  "those (map (\<lambda>i. if i \<in> D then Some (f i) else None) xs) =
     (if set xs \<subseteq> D then Some (map f xs) else None)"
  by (induction xs) auto

lemma settle_Fulfilled: "settle tasks (Fulfilled vs) i = Fulfilled vs"
  by (simp add: settle_def)

lemma settle_Rejected: "settle tasks (Rejected e) i = Rejected e"
  by (simp add: settle_def)

lemma foldl_settle_Rejected: "foldl (settle tasks) (Rejected e) order = Rejected e"
  by (induction order) (simp_all add: settle_Rejected)

lemma settle_out_of_range: "length tasks \<le> i \<Longrightarrow> settle tasks pr i = pr"
  by (cases pr) (simp_all add: settle_def)

lemma fulfilled_by_out_of_range:
  "length tasks \<le> i \<Longrightarrow> fulfilled_by tasks (insert i D) = fulfilled_by tasks D"
  by (auto simp: fulfilled_by_def)

lemma slots_update:
  assumes "i < n"
  shows "(map (\<lambda>j. if j \<in> D then Some (f j) else None) [0..<n])[i := Some (f i)] =
         map (\<lambda>j. if j \<in> insert i D then Some (f j) else None) [0..<n]"
  using assms by (intro nth_equalityI) (auto simp: nth_list_update)

lemma settle_fulfilled_by:
  assumes "i < length tasks" "tasks ! i = Inr v"
  shows "settle tasks (fulfilled_by tasks D) i = fulfilled_by tasks (insert i D)"
proof (cases "{..<length tasks} \<subseteq> D")
  case True
  then have "{..<length tasks} \<subseteq> insert i D" by auto
  with True show ?thesis by (simp add: fulfilled_by_def settle_Fulfilled)
next
  case False
  define g where "g = (\<lambda>E j. if j \<in> E then Some (projr (tasks ! j)) else None)"
  have v: "Some v = g (insert i D) i" using assms(2) by (simp add: g_def)
  have upd: "(map (g D) [0..<length tasks])[i := Some v] = map (g (insert i D)) [0..<length tasks]"
    unfolding v using assms(1) by (intro nth_equalityI) (auto simp: nth_list_update g_def)
  have nth: "map (\<lambda>j. projr (tasks ! j)) [0..<length tasks] = map projr tasks"
    by (intro nth_equalityI) auto
  have th: "those (map (g E) [0..<length tasks]) =
              (if {..<length tasks} \<subseteq> E then Some (map projr tasks) else None)" for E
    unfolding g_def those_map_filled nth by (simp add: atLeast0LessThan)
  have fb: "fulfilled_by tasks E =
              (if {..<length tasks} \<subseteq> E then Fulfilled (map projr tasks)
               else Pending (map (g E) [0..<length tasks]))" for E
    by (simp add: fulfilled_by_def g_def)
  have "settle tasks (Pending (map (g D) [0..<length tasks])) i =
          (case those (map (g (insert i D)) [0..<length tasks]) of
             Some vs \<Rightarrow> Fulfilled vs
           | None \<Rightarrow> Pending (map (g (insert i D)) [0..<length tasks]))"
    using assms by (simp add: settle_def upd cong: option.case_cong)
  then show ?thesis
    using False by (simp add: fb th)
qed

lemma settle_reject:
  assumes "i < length tasks" "tasks ! i = Inl e" "i \<notin> D"
  shows "settle tasks (fulfilled_by tasks D) i = Rejected e"
proof -
  have "\<not> {..<length tasks} \<subseteq> D" using assms(1,3) by auto
  then show ?thesis using assms by (simp add: fulfilled_by_def settle_def)
qed

lemma foldl_settle:
  assumes "\<forall>j \<in> D. j < length tasks \<longrightarrow> \<not> isl (tasks ! j)"
  shows "foldl (settle tasks) (fulfilled_by tasks D) order =
         (case find (\<lambda>i. i < length tasks \<and> isl (tasks ! i)) order of
            Some i \<Rightarrow> Rejected (projl (tasks ! i))
          | None \<Rightarrow> fulfilled_by tasks (D \<union> set order))"
  using assms
proof (induction order arbitrary: D)
  case Nil
  show ?case by simp
next
  case (Cons i order)
  show ?case
  proof (cases "i < length tasks")
    case False
    then have "length tasks \<le> i" by simp
    then show ?thesis
      using Cons.IH[OF Cons.prems] fulfilled_by_out_of_range[of tasks i "D \<union> set order"]
      by (simp add: settle_out_of_range split: option.splits)
  next
    case True
    show ?thesis
    proof (cases "tasks ! i")
      case (Inl e)
      then have "i \<notin> D" using Cons.prems True by auto
      then show ?thesis
        using True Inl by (simp add: settle_reject foldl_settle_Rejected split: option.splits)
    next
      case (Inr v)
      have "\<forall>j \<in> insert i D. j < length tasks \<longrightarrow> \<not> isl (tasks ! j)"
        using Cons.prems Inr by auto
      from Cons.IH[OF this] show ?thesis
        using True Inr by (simp add: settle_fulfilled_by split: option.splits)
    qed
  qed
qed

lemma promise_all_eq:
  "promise_all tasks order =
     (case find (\<lambda>i. i < length tasks \<and> isl (tasks ! i)) order of
        Some i \<Rightarrow> Rejected (projl (tasks ! i))
      | None \<Rightarrow> fulfilled_by tasks (set order))"
proof -
  have "(if tasks = [] then Fulfilled [] else Pending (replicate (length tasks) None)) =
        fulfilled_by tasks {}"
    by (cases tasks) (auto simp: fulfilled_by_def map_replicate_const simp del: upt_Suc replicate_Suc)
  then show ?thesis
    using foldl_settle[of "{}" tasks order] by (simp add: promise_all_def cong: option.case_cong)
qed

lemma promise_all_fulfilled:
  assumes "{..<length tasks} \<subseteq> set order" "\<forall>t \<in> set tasks. \<not> isl t"
  shows "promise_all tasks order = Fulfilled (map projr tasks)"
proof -
  have "find (\<lambda>i. i < length tasks \<and> isl (tasks ! i)) order = None"
    using assms(2) by (auto simp: find_None_iff)
  then show ?thesis using assms(1) by (simp add: promise_all_eq fulfilled_by_def)
qed

lemma promise_all_rejected:
  assumes "{..<length tasks} \<subseteq> set order" "\<exists>t \<in> set tasks. isl t"
  shows "\<exists>i < length tasks. \<exists>e. tasks ! i = Inl e \<and> promise_all tasks order = Rejected e"
proof -
  from assms(2) obtain k where k: "k < length tasks" "isl (tasks ! k)"
    by (auto simp: in_set_conv_nth)
  then have "k \<in> set order" using assms(1) by auto
  then have "find (\<lambda>i. i < length tasks \<and> isl (tasks ! i)) order \<noteq> None"
    using k by (auto simp: find_None_iff)
  then obtain i where f: "find (\<lambda>i. i < length tasks \<and> isl (tasks ! i)) order = Some i"
    by auto
  then have i: "i < length tasks" "isl (tasks ! i)"
    by (auto simp: find_Some_iff)
  then obtain e where "tasks ! i = Inl e" by (cases "tasks ! i") auto
  then show ?thesis using f i by (auto simp: promise_all_eq)
qed


lemma pattern_task_Inl:
  "pattern_task A pid = Inl e \<Longrightarrow>
     (get_pattern A pid = NotOk \<and> e = PatternLoadFailed pid) \<or>
     (\<exists>msg. get_pattern A pid = Failed msg \<and> e = RuntimeMessage msg) \<or>
     (\<exists>pd. get_pattern A pid = Ok pd \<and> get_route A (route_id pd) = NotOk \<and>
           e = RouteLoadFailed (route_id pd)) \<or>
     (\<exists>pd msg. get_pattern A pid = Ok pd \<and> get_route A (route_id pd) = Failed msg \<and>
           e = RuntimeMessage msg)"
  by (auto simp: pattern_task_def split: response.splits)

lemma isl_pattern_task:
  "isl (pattern_task A pid) \<longleftrightarrow>
     \<not> (\<exists>pd rd. get_pattern A pid = Ok pd \<and> get_route A (route_id pd) = Ok rd)"
  by (auto simp: pattern_task_def split: response.splits)

lemma pattern_task_Inr:
  "pattern_task A pid = Inr p \<Longrightarrow>
     \<exists>pd rd. get_pattern A pid = Ok pd \<and> get_route A (route_id pd) = Ok rd \<and>
       p = pd\<lparr> route_long_name := route_data_long_name rd,
               long_name := route_data_long_name rd \<rparr>"
  by (auto simp: pattern_task_def split: response.splits)

lemma searchRoute_line_ok:
  assumes "js_trim (routeNumber s) \<noteq> []" "get_line A (routeNumber s) = Ok data"
  shows "fst (searchRoute A order s) =
     (case promise_all (map (pattern_task A) (pattern_ids data)) order of
        Fulfilled ps \<Rightarrow>
          s\<lparr> loading := False, error := None, routeDetails := Some data,
             selectedPattern := None, shapeData := None, patterns := ps \<rparr>
      | Rejected e \<Rightarrow>
          s\<lparr> loading := False, error := Some e, routeDetails := Some data,
             selectedPattern := None, shapeData := None, patterns := [] \<rparr>
      | Pending slots \<Rightarrow>
          s\<lparr> loading := True, error := None, routeDetails := Some data,
             selectedPattern := None, shapeData := None, patterns := [] \<rparr>)"
  using assms by (simp add: searchRoute_def Let_def split: promise.splits)

text \<open>
  Claim C4.  When every pattern and route fetch succeeds, the pattern list produced by
  \<open>searchRoute\<close> has, at each index, the pattern resolved from the identifier at that index
  of the line's identifier list, whatever the order in which the tasks settle.
\<close>

theorem searchRoute_patterns_in_order:
  assumes "js_trim (routeNumber s) \<noteq> []"
    and "get_line A (routeNumber s) = Ok data"
    and "\<forall>pid \<in> set (pattern_ids data). \<exists>pd rd.
           get_pattern A pid = Ok pd \<and> get_route A (route_id pd) = Ok rd"
    and "{..<length (pattern_ids data)} \<subseteq> set order"
  shows "length (patterns (fst (searchRoute A order s))) = length (pattern_ids data) \<and>
         (\<forall>i < length (pattern_ids data). \<exists>pd rd.
            get_pattern A (pattern_ids data ! i) = Ok pd \<and>
            get_route A (route_id pd) = Ok rd \<and>
            patterns (fst (searchRoute A order s)) ! i =
              pd\<lparr> route_long_name := route_data_long_name rd,
                    long_name := route_data_long_name rd \<rparr>)"
proof -
  let ?tasks = "map (pattern_task A) (pattern_ids data)"
  have ok: "\<not> isl (pattern_task A pid)" if "pid \<in> set (pattern_ids data)" for pid
    using assms(3) that by (fastforce simp: pattern_task_def)
  have "promise_all ?tasks order = Fulfilled (map projr ?tasks)"
    using assms(4) ok by (intro promise_all_fulfilled) auto
  then have ps: "patterns (fst (searchRoute A order s)) = map projr ?tasks"
    using searchRoute_line_ok[OF assms(1,2), of order] by simp
  have "\<exists>pd rd. get_pattern A (pattern_ids data ! i) = Ok pd \<and>
            get_route A (route_id pd) = Ok rd \<and>
            map projr ?tasks ! i =
              pd\<lparr> route_long_name := route_data_long_name rd,
                    long_name := route_data_long_name rd \<rparr>"
    if "i < length (pattern_ids data)" for i
  proof -
    have "\<not> isl (pattern_task A (pattern_ids data ! i))" using ok that by simp
    then obtain p where p: "pattern_task A (pattern_ids data ! i) = Inr p"
      by (cases "pattern_task A (pattern_ids data ! i)") auto
    from pattern_task_Inr[OF p] show ?thesis using p that by simp
  qed
  then show ?thesis unfolding ps by simp
qed

theorem searchRoute_patterns_in_order_witness:
  "map pattern_id (patterns (fst (searchRoute (sample_api []) [1, 0] (idle_state ''1001'')))) =
     [''p1'', ''p2'']"
proof -
  have cover: "{..<length (pattern_ids sample_details)} \<subseteq> set [1, 0 :: nat]"
    by (auto simp: sample_details_def)
  have line: "get_line (sample_api []) (routeNumber (idle_state ''1001'')) = Ok sample_details"
    by (simp add: sample_api_def idle_state_def)
  have trim: "js_trim (routeNumber (idle_state ''1001'')) \<noteq> []"
    by (simp add: idle_state_def js_trim_1001_plain)
  have subs: "\<forall>pid \<in> set (pattern_ids sample_details). \<exists>pd rd.
           get_pattern (sample_api []) pid = Ok pd \<and> get_route (sample_api []) (route_id pd) = Ok rd"
    by (simp add: sample_details_def sample_api_def sample_pattern_def)
  note main = searchRoute_patterns_in_order[OF trim line subs cover]
  let ?ps = "patterns (fst (searchRoute (sample_api []) [1, 0] (idle_state ''1001'')))"
  from main have len: "length ?ps = 2"
    by (simp add: sample_details_def)
  have nth: "\<exists>pd rd. get_pattern (sample_api []) (pattern_ids sample_details ! i) = Ok pd \<and>
            get_route (sample_api []) (route_id pd) = Ok rd \<and>
            ?ps ! i = pd\<lparr> route_long_name := route_data_long_name rd,
                           long_name := route_data_long_name rd \<rparr>"
    if "i < length (pattern_ids sample_details)" for i
    using main that by blast
  have n0: "pattern_id (?ps ! 0) = ''p1''"
    using nth[of 0] by (auto simp: sample_details_def sample_api_def sample_pattern_def)
  have n1: "pattern_id (?ps ! 1) = ''p2''"
    using nth[of 1] by (auto simp: sample_details_def sample_api_def sample_pattern_def)
  show ?thesis
    using len n0 n1 by (intro nth_equalityI) (auto simp: less_Suc_eq numeral_2_eq_2)
qed


text \<open>
  Claim C3, as the code has it.  The pattern list is all or nothing.  When the fetch of a
  pattern or of its route does not succeed, \<open>searchRoute\<close> ends with one error message and an
  empty pattern list, whatever the order in which the tasks settle.  After a status that is
  not a success the message names the identifier whose fetch failed: the pattern identifier
  for a pattern fetch, the route identifier for a route fetch.  After a rejected fetch or a
  body that cannot be parsed the message is the runtime's own.  When every fetch succeeds the
  list has, in order, the pattern resolved from each identifier, and no error is stored.
\<close>

theorem searchRoute_all_or_nothing:
  assumes "js_trim (routeNumber s) \<noteq> []"
    and "get_line A (routeNumber s) = Ok data"
    and "{..<length (pattern_ids data)} \<subseteq> set order"
  shows "((\<exists>pid \<in> set (pattern_ids data).
             \<not> (\<exists>pd rd. get_pattern A pid = Ok pd \<and> get_route A (route_id pd) = Ok rd)) \<longrightarrow>
            patterns (fst (searchRoute A order s)) = [] \<and>
            (\<exists>pid \<in> set (pattern_ids data).
               (get_pattern A pid = NotOk \<and>
                error (fst (searchRoute A order s)) = Some (PatternLoadFailed pid)) \<or>
               (\<exists>msg. get_pattern A pid = Failed msg \<and>
                  error (fst (searchRoute A order s)) = Some (RuntimeMessage msg)) \<or>
               (\<exists>pd. get_pattern A pid = Ok pd \<and> get_route A (route_id pd) = NotOk \<and>
                  error (fst (searchRoute A order s)) = Some (RouteLoadFailed (route_id pd))) \<or>
               (\<exists>pd msg. get_pattern A pid = Ok pd \<and>
                  get_route A (route_id pd) = Failed msg \<and>
                  error (fst (searchRoute A order s)) = Some (RuntimeMessage msg)))) \<and>
         ((\<forall>pid \<in> set (pattern_ids data).
             \<exists>pd rd. get_pattern A pid = Ok pd \<and> get_route A (route_id pd) = Ok rd) \<longrightarrow>
            error (fst (searchRoute A order s)) = None \<and>
            length (patterns (fst (searchRoute A order s))) = length (pattern_ids data) \<and>
            (\<forall>i < length (pattern_ids data). \<exists>pd rd.
               get_pattern A (pattern_ids data ! i) = Ok pd \<and>
               get_route A (route_id pd) = Ok rd \<and>
               patterns (fst (searchRoute A order s)) ! i =
                 pd\<lparr> route_long_name := route_data_long_name rd,
                       long_name := route_data_long_name rd \<rparr>))"
proof -
  let ?tasks = "map (pattern_task A) (pattern_ids data)"
  let ?r = "fst (searchRoute A order s)"
  note st = searchRoute_line_ok[OF assms(1,2), of order]
  have cover: "{..<length ?tasks} \<subseteq> set order" using assms(3) by simp
  have fail: "patterns ?r = [] \<and>
            (\<exists>pid \<in> set (pattern_ids data).
               (get_pattern A pid = NotOk \<and> error ?r = Some (PatternLoadFailed pid)) \<or>
               (\<exists>msg. get_pattern A pid = Failed msg \<and> error ?r = Some (RuntimeMessage msg)) \<or>
               (\<exists>pd. get_pattern A pid = Ok pd \<and> get_route A (route_id pd) = NotOk \<and>
                  error ?r = Some (RouteLoadFailed (route_id pd))) \<or>
               (\<exists>pd msg. get_pattern A pid = Ok pd \<and>
                  get_route A (route_id pd) = Failed msg \<and>
                  error ?r = Some (RuntimeMessage msg)))"
    if "\<exists>pid \<in> set (pattern_ids data).
             \<not> (\<exists>pd rd. get_pattern A pid = Ok pd \<and> get_route A (route_id pd) = Ok rd)"
  proof -
    from that have "\<exists>t \<in> set ?tasks. isl t" by (auto simp: isl_pattern_task)
    from promise_all_rejected[OF cover this]
    obtain i e where i: "i < length (pattern_ids data)"
      and e: "pattern_task A (pattern_ids data ! i) = Inl e"
      and r: "promise_all ?tasks order = Rejected e" by auto
    have mem: "pattern_ids data ! i \<in> set (pattern_ids data)" using i by simp
    have err: "error ?r = Some e" and ps: "patterns ?r = []"
      using st r by simp_all
    from pattern_task_Inl[OF e] mem show ?thesis unfolding err ps by blast
  qed
  have succ: "error ?r = None \<and> length (patterns ?r) = length (pattern_ids data) \<and>
            (\<forall>i < length (pattern_ids data). \<exists>pd rd.
               get_pattern A (pattern_ids data ! i) = Ok pd \<and>
               get_route A (route_id pd) = Ok rd \<and>
               patterns ?r ! i =
                 pd\<lparr> route_long_name := route_data_long_name rd,
                       long_name := route_data_long_name rd \<rparr>)"
    if ok: "\<forall>pid \<in> set (pattern_ids data).
             \<exists>pd rd. get_pattern A pid = Ok pd \<and> get_route A (route_id pd) = Ok rd"
  proof -
    have nf: "\<not> isl (pattern_task A pid)" if "pid \<in> set (pattern_ids data)" for pid
      using ok that by (simp add: isl_pattern_task)
    have "promise_all ?tasks order = Fulfilled (map projr ?tasks)"
      using cover nf by (intro promise_all_fulfilled) auto
    then have ps: "patterns ?r = map projr ?tasks" and er: "error ?r = None"
      using st by simp_all
    have "\<exists>pd rd. get_pattern A (pattern_ids data ! i) = Ok pd \<and>
            get_route A (route_id pd) = Ok rd \<and>
            map projr ?tasks ! i =
              pd\<lparr> route_long_name := route_data_long_name rd,
                    long_name := route_data_long_name rd \<rparr>"
      if "i < length (pattern_ids data)" for i
    proof -
      have "\<not> isl (pattern_task A (pattern_ids data ! i))" using nf that by simp
      then obtain q where q: "pattern_task A (pattern_ids data ! i) = Inr q"
        by (cases "pattern_task A (pattern_ids data ! i)") auto
      from pattern_task_Inr[OF q] show ?thesis using q that by simp
    qed
    then show ?thesis unfolding ps using er by simp
  qed
  from fail succ show ?thesis by blast
qed

theorem searchRoute_all_or_nothing_witness:
  "patterns (fst (searchRoute (sample_api ''r2'') [1, 0] (idle_state ''1001''))) = [] \<and>
   error (fst (searchRoute (sample_api ''r2'') [1, 0] (idle_state ''1001''))) =
     Some (RouteLoadFailed ''r2'') \<and>
   error (fst (searchRoute (sample_api []) [1, 0] (idle_state ''1001''))) = None \<and>
   length (patterns (fst (searchRoute (sample_api []) [1, 0] (idle_state ''1001'')))) = 2"
proof -
  have cover: "{..<length (pattern_ids sample_details)} \<subseteq> set [1, 0 :: nat]"
    by (auto simp: sample_details_def)
  have line: "get_line (sample_api b) (routeNumber (idle_state ''1001'')) = Ok sample_details" for b
    by (simp add: sample_api_def idle_state_def)
  have trim: "js_trim (routeNumber (idle_state ''1001'')) \<noteq> []"
    by (simp add: idle_state_def js_trim_1001_plain)
  have bad: "\<exists>pid \<in> set (pattern_ids sample_details).
      \<not> (\<exists>pd rd. get_pattern (sample_api ''r2'') pid = Ok pd \<and>
                  get_route (sample_api ''r2'') (route_id pd) = Ok rd)"
    by (simp add: sample_details_def sample_api_def sample_pattern_def)
  have good: "\<forall>pid \<in> set (pattern_ids sample_details).
      \<exists>pd rd. get_pattern (sample_api []) pid = Ok pd \<and>
               get_route (sample_api []) (route_id pd) = Ok rd"
    by (simp add: sample_details_def sample_api_def sample_pattern_def)
  from searchRoute_all_or_nothing[OF trim line cover, of "''r2''"] bad
  have 1: "patterns (fst (searchRoute (sample_api ''r2'') [1, 0] (idle_state ''1001''))) = []"
    and 2: "error (fst (searchRoute (sample_api ''r2'') [1, 0] (idle_state ''1001''))) =
              Some (RouteLoadFailed ''r2'')"
    by (auto simp: sample_details_def sample_api_def sample_pattern_def)
  from searchRoute_all_or_nothing[OF trim line cover, of "[]"] good
  have 3: "error (fst (searchRoute (sample_api []) [1, 0] (idle_state ''1001''))) = None"
    and 4: "length (patterns (fst (searchRoute (sample_api []) [1, 0] (idle_state ''1001'')))) = 2"
    by (auto simp: sample_details_def)
  from 1 2 3 4 show ?thesis by simp
qed

text \<open>
  The claim as written fails: when the fetch of a pattern is rejected, the message stored is
  the one of the runtime's exception, which names neither the pattern nor its route.
\<close>

theorem rejected_fetch_names_no_identifier:
  "get_pattern offline_api ''p2'' = Failed ''Failed to fetch'' \<and>
   error (fst (searchRoute offline_api [0, 1] (idle_state ''1001''))) =
     Some (RuntimeMessage ''Failed to fetch'') \<and>
   patterns (fst (searchRoute offline_api [0, 1] (idle_state ''1001''))) = []"
proof -
  have t: "js_trim ''1001'' = ''1001''" by (rule js_trim_1001_plain)
  have pa: "promise_all
      (map (pattern_task offline_api) [''p1'', ''p2'']) [0, 1] =
      Rejected (RuntimeMessage ''Failed to fetch'')"
    by (simp add: promise_all_def settle_def pattern_task_def offline_api_def sample_api_def
          sample_pattern_def)
  show ?thesis
    using pa
    by (simp add: searchRoute_def idle_state_def t Let_def)
       (simp add: offline_api_def sample_api_def sample_details_def)
qed

section \<open>Properties of the selection handler\<close>

lemma shapeData_fetchPattern_begin: "shapeData (fetchPattern_begin p s) = shapeData s"
  by (simp add: fetchPattern_begin_def)

lemma shapeData_fetchPattern_resume:
  "shapeData (fetchPattern_resume A p s) =
     (case get_shape A (shape_id p) of Ok sh \<Rightarrow> Some sh | _ \<Rightarrow> shapeData s)"
  by (simp add: fetchPattern_resume_def split: response.splits)

lemma foldl_step_shape:
  assumes "\<forall>sh. shapeData s = Some sh \<longrightarrow> (\<exists>p \<in> P. get_shape A (shape_id p) = Ok sh)"
    and "set inflight \<subseteq> P"
  shows "\<forall>sh. shapeData (fst (foldl (step A) (s, inflight) evs)) = Some sh \<longrightarrow>
           (\<exists>p \<in> P \<union> {p. Select p \<in> set evs}. get_shape A (shape_id p) = Ok sh)"
  using assms
proof (induction evs arbitrary: s inflight P)
  case Nil
  then show ?case by simp
next
  case (Cons ev evs)
  show ?case
  proof (cases ev)
    case (Select p)
    have 1: "\<forall>sh. shapeData (fetchPattern_begin p s) = Some sh \<longrightarrow>
               (\<exists>q \<in> insert p P. get_shape A (shape_id q) = Ok sh)"
      using Cons.prems(1) by (auto simp: shapeData_fetchPattern_begin)
    have 2: "set (inflight @ [p]) \<subseteq> insert p P" using Cons.prems(2) by auto
    have eq: "P \<union> {q. Select q \<in> set (ev # evs)} = insert p P \<union> {q. Select q \<in> set evs}"
      using Select by auto
    have st: "foldl (step A) (s, inflight) (ev # evs) =
              foldl (step A) (fetchPattern_begin p s, inflight @ [p]) evs"
      using Select by simp
    show ?thesis unfolding st eq by (rule Cons.IH[OF 1 2])
  next
    case (Arrive i)
    show ?thesis
    proof (cases "i < length inflight")
      case False
      have eq: "P \<union> {q. Select q \<in> set (ev # evs)} = P \<union> {q. Select q \<in> set evs}"
        using Arrive by auto
      have st: "foldl (step A) (s, inflight) (ev # evs) = foldl (step A) (s, inflight) evs"
        using Arrive False by simp
      show ?thesis unfolding st eq by (rule Cons.IH[OF Cons.prems])
    next
      case True
      then have mem: "inflight ! i \<in> P" using Cons.prems(2) by auto
      have 1: "\<forall>sh. shapeData (fetchPattern_resume A (inflight ! i) s) = Some sh \<longrightarrow>
               (\<exists>q \<in> P. get_shape A (shape_id q) = Ok sh)"
        using Cons.prems(1) mem
        by (auto simp: shapeData_fetchPattern_resume split: response.splits)
      have 2: "set (take i inflight @ drop (Suc i) inflight) \<subseteq> P"
        using Cons.prems(2) by (auto dest: in_set_takeD in_set_dropD)
      have eq: "P \<union> {q. Select q \<in> set (ev # evs)} = P \<union> {q. Select q \<in> set evs}"
        using Arrive by auto
      have st: "foldl (step A) (s, inflight) (ev # evs) =
                foldl (step A) (fetchPattern_resume A (inflight ! i) s,
                                take i inflight @ drop (Suc i) inflight) evs"
        using Arrive True by simp
      show ?thesis unfolding st eq by (rule Cons.IH[OF 1 2])
    qed
  qed
qed

text \<open>
  Claim C5, as the code has it.  From a state without a shape, whatever selections and
  responses follow, the loaded shape is absent or is the shape the server returns for the
  \<open>shape_id\<close> of a pattern selected so far, which need not be the current selection:
  selecting a pattern leaves the loaded shape in place, and a successful response is stored
  when it arrives whatever pattern is selected by then.
\<close>

theorem fetchPattern_shape_of_selected:
  assumes "shapeData s = None"
  shows "(\<forall>sh. shapeData (fst (run A s evs)) = Some sh \<longrightarrow>
            (\<exists>p. Select p \<in> set evs \<and> get_shape A (shape_id p) = Ok sh)) \<and>
         shapeData (fetchPattern_begin q t) = shapeData t \<and>
         selectedPattern (fetchPattern_begin q t) = Some q \<and>
         (get_shape A (shape_id q) = Ok sh' \<longrightarrow>
            shapeData (fetchPattern_resume A q t) = Some sh' \<and>
            selectedPattern (fetchPattern_resume A q t) = selectedPattern t)"
proof -
  have "\<forall>sh. shapeData (fst (run A s evs)) = Some sh \<longrightarrow>
          (\<exists>p \<in> {} \<union> {p. Select p \<in> set evs}. get_shape A (shape_id p) = Ok sh)"
    unfolding run_def using assms by (intro foldl_step_shape) simp_all
  then show ?thesis
    by (auto simp: fetchPattern_begin_def fetchPattern_resume_def)
qed

text \<open>
  The claim as written fails: a response to an earlier selection that arrives after the
  response to the current one replaces the shape of the current selection.
\<close>

theorem fetchPattern_stale_shape:
  "selectedPattern (fst (run (sample_api []) (idle_state ''1001'')
       [Select (sample_pattern ''p1'' ''Alfragide - Reboleira'' ''s1'' ''r1''),
        Select (sample_pattern ''p2'' ''Reboleira - Alfragide'' ''s2'' ''r2''),
        Arrive 1, Arrive 0])) =
     Some (sample_pattern ''p2'' ''Reboleira - Alfragide'' ''s2'' ''r2'') \<and>
   shapeData (fst (run (sample_api []) (idle_state ''1001'')
       [Select (sample_pattern ''p1'' ''Alfragide - Reboleira'' ''s1'' ''r1''),
        Select (sample_pattern ''p2'' ''Reboleira - Alfragide'' ''s2'' ''r2''),
        Arrive 1, Arrive 0])) =
     Some (sample_shape ''s1'') \<and>
   get_shape (sample_api [])
     (shape_id (sample_pattern ''p2'' ''Reboleira - Alfragide'' ''s2'' ''r2'')) =
     Ok (sample_shape ''s2'') \<and>
   sample_shape ''s1'' \<noteq> sample_shape ''s2''"
  by (simp add: run_def fetchPattern_begin_def fetchPattern_resume_def sample_api_def
        sample_pattern_def idle_state_def sample_shape_def single_feature_def line_feature_def)

theorem fetchPattern_shape_of_selected_witness:
  "shapeData (fst (run (sample_api []) (idle_state ''1001'')
       [Select (sample_pattern ''p1'' ''Alfragide - Reboleira'' ''s1'' ''r1''), Arrive 0])) =
     Some (sample_shape ''s1'')"
  using fetchPattern_shape_of_selected[of "idle_state ''1001''" "sample_api []"
      "[Select (sample_pattern ''p1'' ''Alfragide - Reboleira'' ''s1'' ''r1''), Arrive 0]"]
  by (simp add: run_def fetchPattern_begin_def fetchPattern_resume_def sample_api_def
        sample_pattern_def idle_state_def)

section \<open>Properties of the exporters\<close>

lemma js_index_position:
  "js_index (position p) 0 = Some (Num (fst p))"
  "js_index (position p) (Suc 0) = Some (Num (snd p))"
  by (simp_all add: position_def)

lemma trkpt_lon_lat_position: "trkpt_lon_lat N (position p) = Inr (track_point_lon_lat N p)"
  by (simp add: trkpt_lon_lat_def track_point_lon_lat_def js_index_position)

lemma trkpt_lat_lon_position: "trkpt_lat_lon N (position p) = Inr (track_point_lat_lon N p)"
  by (simp add: trkpt_lat_lon_def track_point_lat_lon_def js_index_position)

lemma map_result_lon_lat:
  "map_result (trkpt_lon_lat N) (map position ps) = Inr (map (track_point_lon_lat N) ps)"
  by (induction ps) (simp_all add: trkpt_lon_lat_position)

lemma map_result_lat_lon:
  "map_result (trkpt_lat_lon N) (map position ps) = Inr (map (track_point_lat_lon N) ps)"
  by (induction ps) (simp_all add: trkpt_lat_lon_position)

lemma trk_line_feature:
  "trk N (line_feature nm ps) =
     Inr (''<trk><name>'' @ (if js_truthy N nm then js_string N nm else ''Rota'') @
          ''</name><trkseg>'' @ js_join newline (map (track_point_lon_lat N) ps) @
          ''</trkseg></trk>'')"
  by (simp add: trk_def line_feature_def line_string_def track_name_def map_result_lon_lat)

lemma waypoints_line_first:
  "waypoints N (feature_collection (line_feature nm (p # ps) # fs)) orig dest =
     Inr (newline @
          wpt (num_string N (fst p)) (num_string N (snd p)) orig @
          wpt (num_string N (fst (last (p # ps)))) (num_string N (snd (last (p # ps)))) dest)"
proof -
  have l: "last (position p # map position ps) = position (last (p # ps))"
    by (simp add: last_map)
  show ?thesis
    unfolding waypoints_def feature_collection_def line_feature_def line_string_def
    apply (simp only: feature.simps geojson_object.simps geometry.simps option.case list.case
        list.map js_index.simps js_last.simps prod.case list.size l)
    apply (simp add: position_def)
    done
qed

lemma js_trim_document:
  "\<not> js_whitespace a \<Longrightarrow> \<not> js_whitespace b \<Longrightarrow> js_trim (a # xs @ [b]) = a # xs @ [b]"
  by (simp add: js_trim_def)


lemma gpxBody_lines:
  "gpxBody N (feature_collection (map (\<lambda>(nm, ps). line_feature nm ps) ls)) =
     Inr (js_join newline
            (map (\<lambda>(nm, ps).
                    ''<trk><name>'' @ (if js_truthy N nm then js_string N nm else ''Rota'') @
                    ''</name><trkseg>'' @ js_join newline (map (track_point_lon_lat N) ps) @
                    ''</trkseg></trk>'') ls))"
proof -
  have "map_result (trk N) (map (\<lambda>(nm, ps). line_feature nm ps) ls) =
        Inr (map (\<lambda>(nm, ps).
                    ''<trk><name>'' @ (if js_truthy N nm then js_string N nm else ''Rota'') @
                    ''</name><trkseg>'' @ js_join newline (map (track_point_lon_lat N) ps) @
                    ''</trkseg></trk>'') ls)"
    by (induction ls) (simp_all add: trk_line_feature split_beta)
  then show ?thesis by (simp add: gpxBody_def feature_collection_def)
qed

lemma gpxData_line:
  \<open>gpxData N pat \<lparr> geojson = Some (single_feature (line_feature nm ps)) \<rparr> =
     Inr (''<?xml version="1.0" encoding="UTF-8"?>'' @ newline @
          ''<gpx version="1.1" creator="Carris Metropolitana">'' @ newline @
          ''  <trk>'' @ newline @
          ''    <name>'' @ headsign pat @ ''</name>'' @ newline @
          ''    <trkseg>'' @ newline @
          js_join newline (map (track_point_lat_lon N) ps) @ newline @
          ''    </trkseg>'' @ newline @
          ''  </trk>'' @ newline @
          ''</gpx>'')\<close>
  by (simp add: gpxData_def single_feature_def line_feature_def line_string_def
        map_result_lat_lon js_trim_def js_whitespace_def)

lemma map_result_member:
  "map_result f xs = Inr ys \<Longrightarrow> x \<in> set xs \<Longrightarrow> \<exists>y \<in> set ys. f x = Inr y"
  by (induction xs arbitrary: ys) (auto split: sum.splits)

lemma sublist_js_join: "y \<in> set ys \<Longrightarrow> sublist y (js_join sep ys)"
proof (induction sep ys rule: js_join.induct)
  case (1 sep)
  then show ?case by simp
next
  case (2 sep x)
  then show ?case by simp
next
  case (3 sep x z zs)
  show ?case
  proof (cases "y = x")
    case True
    then show ?thesis by simp
  next
    case False
    with 3 have "sublist y (js_join sep (z # zs))" by simp
    then obtain a b where "js_join sep (z # zs) = a @ y @ b" by (auto simp: sublist_def)
    then have "js_join sep (x # z # zs) = (x @ sep @ a) @ y @ b" by simp
    then show ?thesis unfolding sublist_def by blast
  qed
qed

lemma geojsonToGpx_Inr:
  assumes "geojsonToGpx N (Some g) orig dest = Inr out" "features g = Some fs"
  shows "\<exists>w ts. map_result (trk N) fs = Inr ts \<and> out = gpxHeader @ w @ js_join newline ts @ gpxFooter"
  using assms
  by (auto simp: geojsonToGpx_def gpxBody_def split: if_splits sum.splits)

lemma js_index_position_ext:
  "js_index (position_ext q) 0 = Some (Num (fst (lon_lat q)))"
  "js_index (position_ext q) (Suc 0) = Some (Num (snd (lon_lat q)))"
  by (cases q; simp)+

lemma trkpt_lon_lat_position_ext:
  "trkpt_lon_lat N (position_ext q) = Inr (track_point_lon_lat N (lon_lat q))"
  by (simp add: trkpt_lon_lat_def track_point_lon_lat_def js_index_position_ext)

lemma trkpt_lat_lon_position_ext:
  "trkpt_lat_lon N (position_ext q) = Inr (track_point_lat_lon N (lon_lat q))"
  by (simp add: trkpt_lat_lon_def track_point_lat_lon_def js_index_position_ext)

lemma map_result_lon_lat_ext:
  "map_result (trkpt_lon_lat N) (map position_ext qs) =
     Inr (map (track_point_lon_lat N \<circ> lon_lat) qs)"
  by (induction qs) (simp_all add: trkpt_lon_lat_position_ext)

lemma map_result_lat_lon_ext:
  "map_result (trkpt_lat_lon N) (map position_ext qs) =
     Inr (map (track_point_lat_lon N \<circ> lon_lat) qs)"
  by (induction qs) (simp_all add: trkpt_lat_lon_position_ext)

lemma trk_line_feature_ext:
  "trk N (line_feature_ext nm qs) =
     Inr (''<trk><name>'' @ (if js_truthy N nm then js_string N nm else ''Rota'') @
          ''</name><trkseg>'' @ js_join newline (map (track_point_lon_lat N \<circ> lon_lat) qs) @
          ''</trkseg></trk>'')"
  by (simp add: trk_def line_feature_ext_def track_name_def map_result_lon_lat_ext)


lemma waypoints_line_ext_first:
  "waypoints N (feature_collection (line_feature_ext nm (q # qs) # fs)) orig dest =
     Inr (newline @
          wpt (num_string N (fst (lon_lat q))) (num_string N (snd (lon_lat q))) orig @
          wpt (num_string N (fst (lon_lat (last (q # qs)))))
              (num_string N (snd (lon_lat (last (q # qs))))) dest)"
proof -
  have l: "last (position_ext q # map position_ext qs) = position_ext (last (q # qs))"
    by (simp add: last_map)
  have t: "js_truthy N (position_ext r)" for r by (cases r) simp
  show ?thesis
    unfolding waypoints_def feature_collection_def line_feature_ext_def
    apply (simp only: feature.simps geojson_object.simps geometry.simps option.case list.case
        list.map js_index.simps js_last.simps prod.case list.size l)
    apply (simp add: js_index_position_ext t)
    done
qed


lemma gpxBody_lines_ext:
  "gpxBody N (feature_collection (map (\<lambda>(nm, qs). line_feature_ext nm qs) ls)) =
     Inr (js_join newline
            (map (\<lambda>(nm, qs).
                    ''<trk><name>'' @ (if js_truthy N nm then js_string N nm else ''Rota'') @
                    ''</name><trkseg>'' @
                    js_join newline (map (track_point_lon_lat N \<circ> lon_lat) qs) @
                    ''</trkseg></trk>'') ls))"
proof -
  have "map_result (trk N) (map (\<lambda>(nm, qs). line_feature_ext nm qs) ls) =
        Inr (map (\<lambda>(nm, qs).
                    ''<trk><name>'' @ (if js_truthy N nm then js_string N nm else ''Rota'') @
                    ''</name><trkseg>'' @
                    js_join newline (map (track_point_lon_lat N \<circ> lon_lat) qs) @
                    ''</trkseg></trk>'') ls)"
    by (induction ls) (simp_all add: trk_line_feature_ext split_beta comp_def)
  then show ?thesis by (simp add: gpxBody_def feature_collection_def)
qed

lemma gpxData_line_ext:
  \<open>gpxData N pat \<lparr> geojson = Some (single_feature (line_feature_ext nm qs)) \<rparr> =
     Inr (''<?xml version="1.0" encoding="UTF-8"?>'' @ newline @
          ''<gpx version="1.1" creator="Carris Metropolitana">'' @ newline @
          ''  <trk>'' @ newline @
          ''    <name>'' @ headsign pat @ ''</name>'' @ newline @
          ''    <trkseg>'' @ newline @
          js_join newline (map (track_point_lat_lon N \<circ> lon_lat) qs) @ newline @
          ''    </trkseg>'' @ newline @
          ''  </trk>'' @ newline @
          ''</gpx>'')\<close>
  by (simp add: gpxData_def single_feature_def line_feature_ext_def
        map_result_lat_lon_ext js_trim_def js_whitespace_def)

lemma geojsonToGpx_single_feature:
  "geojsonToGpx N (Some (single_feature f)) orig dest = Inl InvalidGeoJSON"
  by (simp add: geojsonToGpx_def single_feature_def)

lemma downloadGPX_feature_collection:
  "downloadGPX N
      \<lparr> routeNumber = rn, routeDetails = Some rd, patterns = pats,
        selectedPattern = Some pat,
        shapeData = Some \<lparr> geojson = Some (feature_collection fs) \<rparr>,
        loading = l, error = e \<rparr> =
     (\<lparr> routeNumber = rn, routeDetails = Some rd, patterns = pats,
        selectedPattern = Some pat,
        shapeData = Some \<lparr> geojson = Some (feature_collection fs) \<rparr>,
        loading = l, error = Some GpxFailed \<rparr>, None)"
  by (simp add: downloadGPX_def gpxData_def feature_collection_def)

lemma line_feature_ext_in_output:
  assumes "geojsonToGpx N (Some g) orig dest = Inr out" "features g = Some fs"
    and "line_feature_ext nm qs \<in> set fs"
  shows "sublist (js_join newline (map (track_point_lon_lat N \<circ> lon_lat) qs)) out"
proof -
  from geojsonToGpx_Inr[OF assms(1,2)] obtain w ts
    where ts: "map_result (trk N) fs = Inr ts"
      and out: "out = gpxHeader @ w @ js_join newline ts @ gpxFooter" by blast
  from map_result_member[OF ts assms(3)] obtain t
    where t: "t \<in> set ts" "trk N (line_feature_ext nm qs) = Inr t" by blast
  from t(2) have "t = (''<trk><name>'' @ (if js_truthy N nm then js_string N nm else ''Rota'') @
      ''</name><trkseg>'') @ js_join newline (map (track_point_lon_lat N \<circ> lon_lat) qs) @
      ''</trkseg></trk>''"
    unfolding trk_line_feature_ext by simp
  then obtain a b
    where "t = a @ js_join newline (map (track_point_lon_lat N \<circ> lon_lat) qs) @ b"
    by blast
  moreover from sublist_js_join[OF t(1), of newline] obtain c d
    where "js_join newline ts = c @ t @ d" by (auto simp: sublist_def)
  ultimately have "out = (gpxHeader @ w @ c @ a) @
      js_join newline (map (track_point_lon_lat N \<circ> lon_lat) qs) @ (b @ d @ gpxFooter)"
    using out by simp
  then show ?thesis unfolding sublist_def by blast
qed












text \<open>
  Claim C1, as the code has it.  No exporter takes both shapes: \<open>geojsonToGpx\<close> rejects
  every single feature and \<open>downloadGPX\<close> stores its error message for every feature
  collection.  For a feature collection of line features whose first line is not empty,
  \<open>geojsonToGpx\<close> returns a document in which the track of every feature consists of one
  track point for each position of the feature, in the order of the input, with the longitude
  and the latitude of the input written by the conversion to a string alone; entries of a
  position after these two are not written.  Whenever \<open>geojsonToGpx\<close> returns a document for
  a feature collection, whatever other features it holds, the track points of each of its
  line features occur in the document as one block in input order.  For a single line feature
  the document built by \<open>downloadGPX\<close> has the same property.
\<close>

theorem track_points_in_input_order:
  \<open>geojsonToGpx N
      (Some (feature_collection
         (map (\<lambda>(nm, qs). line_feature_ext nm qs) ((nm0, q # qs0) # ls))))
      orig dest =
     Inr (gpxHeader @ newline @
          wpt (num_string N (fst (lon_lat q))) (num_string N (snd (lon_lat q))) orig @
          wpt (num_string N (fst (lon_lat (last (q # qs0)))))
              (num_string N (snd (lon_lat (last (q # qs0))))) dest @
          js_join newline
            (map (\<lambda>(nm, qs).
                    ''<trk><name>'' @ (if js_truthy N nm then js_string N nm else ''Rota'') @
                    ''</name><trkseg>'' @
                    js_join newline (map (track_point_lon_lat N \<circ> lon_lat) qs) @
                    ''</trkseg></trk>'') ((nm0, q # qs0) # ls)) @
          gpxFooter) \<and>
   (geojsonToGpx N (Some g) orig dest = Inr out \<and> features g = Some fs \<and>
    line_feature_ext nm qs \<in> set fs \<longrightarrow>
      sublist (js_join newline (map (track_point_lon_lat N \<circ> lon_lat) qs)) out) \<and>
   downloadGPX N
      \<lparr> routeNumber = rn, routeDetails = Some rd, patterns = pats,
        selectedPattern = Some pat,
        shapeData = Some \<lparr> geojson = Some (single_feature (line_feature_ext nm qs)) \<rparr>,
        loading = l, error = e \<rparr> =
     (\<lparr> routeNumber = rn, routeDetails = Some rd, patterns = pats,
        selectedPattern = Some pat,
        shapeData = Some \<lparr> geojson = Some (single_feature (line_feature_ext nm qs)) \<rparr>,
        loading = l, error = e \<rparr>,
      Some \<lparr> file_name = ''rota-'' @ short_name rd @ ''-'' @ replace_spaces (headsign pat) @
                          ''.gpx'',
             file_content =
               ''<?xml version="1.0" encoding="UTF-8"?>'' @ newline @
               ''<gpx version="1.1" creator="Carris Metropolitana">'' @ newline @
               ''  <trk>'' @ newline @
               ''    <name>'' @ headsign pat @ ''</name>'' @ newline @
               ''    <trkseg>'' @ newline @
               js_join newline (map (track_point_lat_lon N \<circ> lon_lat) qs) @ newline @
               ''    </trkseg>'' @ newline @
               ''  </trk>'' @ newline @
               ''</gpx>'' \<rparr>) \<and>
   geojsonToGpx N (Some (single_feature f)) orig dest = Inl InvalidGeoJSON \<and>
   downloadGPX N
      \<lparr> routeNumber = rn, routeDetails = Some rd, patterns = pats,
        selectedPattern = Some pat,
        shapeData = Some \<lparr> geojson = Some (feature_collection fs') \<rparr>,
        loading = l, error = e \<rparr> =
     (\<lparr> routeNumber = rn, routeDetails = Some rd, patterns = pats,
        selectedPattern = Some pat,
        shapeData = Some \<lparr> geojson = Some (feature_collection fs') \<rparr>,
        loading = l, error = Some GpxFailed \<rparr>, None)\<close>
proof -
  have w: "waypoints N
      (feature_collection (map (\<lambda>(nm, qs). line_feature_ext nm qs) ((nm0, q # qs0) # ls)))
      orig dest =
     Inr (newline @
          wpt (num_string N (fst (lon_lat q))) (num_string N (snd (lon_lat q))) orig @
          wpt (num_string N (fst (lon_lat (last (q # qs0)))))
              (num_string N (snd (lon_lat (last (q # qs0))))) dest)"
    using waypoints_line_ext_first[of N nm0 q qs0
        "map (\<lambda>(nm, qs). line_feature_ext nm qs) ls" orig dest]
    by simp
  have 1: "object_type (feature_collection gs) = ''FeatureCollection''" for gs :: "'a feature list"
    by (simp add: feature_collection_def)
  have sub: "sublist (js_join newline (map (track_point_lon_lat N \<circ> lon_lat) qs)) out"
    if "geojsonToGpx N (Some g) orig dest = Inr out \<and> features g = Some fs \<and>
        line_feature_ext nm qs \<in> set fs"
    using that line_feature_ext_in_output[of N g orig dest out fs nm qs] by blast
  have rest: \<open>geojsonToGpx N
      (Some (feature_collection
         (map (\<lambda>(nm, qs). line_feature_ext nm qs) ((nm0, q # qs0) # ls))))
      orig dest =
     Inr (gpxHeader @ newline @
          wpt (num_string N (fst (lon_lat q))) (num_string N (snd (lon_lat q))) orig @
          wpt (num_string N (fst (lon_lat (last (q # qs0)))))
              (num_string N (snd (lon_lat (last (q # qs0))))) dest @
          js_join newline
            (map (\<lambda>(nm, qs).
                    ''<trk><name>'' @ (if js_truthy N nm then js_string N nm else ''Rota'') @
                    ''</name><trkseg>'' @
                    js_join newline (map (track_point_lon_lat N \<circ> lon_lat) qs) @
                    ''</trkseg></trk>'') ((nm0, q # qs0) # ls)) @
          gpxFooter)\<close>
    unfolding geojsonToGpx_def
    by (simp only: w gpxBody_lines_ext 1 option.case sum.case if_False simp_thms append_assoc)
  have dl: \<open>downloadGPX N
      \<lparr> routeNumber = rn, routeDetails = Some rd, patterns = pats,
        selectedPattern = Some pat,
        shapeData = Some \<lparr> geojson = Some (single_feature (line_feature_ext nm qs)) \<rparr>,
        loading = l, error = e \<rparr> =
     (\<lparr> routeNumber = rn, routeDetails = Some rd, patterns = pats,
        selectedPattern = Some pat,
        shapeData = Some \<lparr> geojson = Some (single_feature (line_feature_ext nm qs)) \<rparr>,
        loading = l, error = e \<rparr>,
      Some \<lparr> file_name = ''rota-'' @ short_name rd @ ''-'' @ replace_spaces (headsign pat) @
                          ''.gpx'',
             file_content =
               ''<?xml version="1.0" encoding="UTF-8"?>'' @ newline @
               ''<gpx version="1.1" creator="Carris Metropolitana">'' @ newline @
               ''  <trk>'' @ newline @
               ''    <name>'' @ headsign pat @ ''</name>'' @ newline @
               ''    <trkseg>'' @ newline @
               js_join newline (map (track_point_lat_lon N \<circ> lon_lat) qs) @ newline @
               ''    </trkseg>'' @ newline @
               ''  </trk>'' @ newline @
               ''</gpx>'' \<rparr>)\<close>
    unfolding downloadGPX_def
    by (simp only: gpxData_line_ext option.case sum.case app_state.simps prod.case append_assoc)
  note rej = geojsonToGpx_single_feature[of N f orig dest]
  note fc = downloadGPX_feature_collection[of N rn rd pats pat fs' l e]
  from rest sub dl rej fc show ?thesis by blast
qed

theorem track_points_in_input_order_witness:
  \<open>geojsonToGpx decimal (Some (feature_collection [line_feature_ext Undefined sample_line_ext]))
      ''A'' ''B'' =
     Inr (''<?xml version="1.0" encoding="UTF-8"?>'' @ newline @
          ''<gpx version="1.1" creator="CustomConverter" xmlns="http://www.topografix.com/GPX/1/1">'' @
          newline @ newline @
          ''<wpt lon="-9.14" lat="38.7">'' @ newline @
          ''  <name>A</name>'' @ newline @
          ''</wpt>'' @ newline @
          ''<wpt lon="-9.1" lat="38.75">'' @ newline @
          ''  <name>B</name>'' @ newline @
          ''</wpt>'' @ newline @
          ''<trk><name>Rota</name><trkseg><trkpt lon="-9.14" lat="38.7"></trkpt>'' @ newline @
          ''<trkpt lon="-9.1" lat="38.75"></trkpt></trkseg></trk></gpx>'') \<and>
   map_option file_content
     (snd (downloadGPX decimal
        (loaded_state (sample_pattern ''p1'' ''A - B'' ''s1'' ''r1'')
           (single_feature (line_feature_ext Undefined sample_line_ext))))) =
     Some (''<?xml version="1.0" encoding="UTF-8"?>'' @ newline @
           ''<gpx version="1.1" creator="Carris Metropolitana">'' @ newline @
           ''  <trk>'' @ newline @
           ''    <name>A - B</name>'' @ newline @
           ''    <trkseg>'' @ newline @
           ''      <trkpt lat="38.7" lon="-9.14"></trkpt>'' @ newline @
           ''      <trkpt lat="38.75" lon="-9.1"></trkpt>'' @ newline @
           ''    </trkseg>'' @ newline @
           ''  </trk>'' @ newline @
           ''</gpx>'') \<and>
   (\<exists>out. geojsonToGpx decimal
            (Some (feature_collection [line_feature_ext Undefined sample_line_ext]))
            ''A'' ''B'' = Inr out \<and>
          sublist (''<trkpt lon="-9.14" lat="38.7"></trkpt>'' @ newline @
                   ''<trkpt lon="-9.1" lat="38.75"></trkpt>'') out)\<close>
proof -
  note main = track_points_in_input_order[where N = decimal and ?nm0.0 = Undefined
      and q = "(''-9.14'', ''38.7'', [''12.5''])" and ?qs0.0 = "[(''-9.1'', ''38.75'', [])]"
      and ls = "[]" and orig = "''A''" and dest = "''B''" and rn = "''1001''"
      and rd = sample_details
      and pats = "[sample_pattern ''p1'' ''A - B'' ''s1'' ''r1'']"
      and pat = "sample_pattern ''p1'' ''A - B'' ''s1'' ''r1''"
      and nm = Undefined and qs = sample_line_ext and l = False and e = None
      and g = "feature_collection [line_feature_ext Undefined sample_line_ext]"
      and fs = "[line_feature_ext Undefined sample_line_ext]"
      and f = "line_feature_ext Undefined sample_line_ext" and fs' = "[]"]
  obtain out where out: "geojsonToGpx decimal
      (Some (feature_collection [line_feature_ext Undefined sample_line_ext])) ''A'' ''B'' =
      Inr out"
    using main[THEN conjunct1] by (simp add: sample_line_ext_def)
  have "features (feature_collection [line_feature_ext Undefined sample_line_ext]) =
      Some [line_feature_ext Undefined sample_line_ext]"
    by (simp add: feature_collection_def)
  with main[THEN conjunct2, THEN conjunct1] out
  have "sublist (js_join newline (map (track_point_lon_lat decimal \<circ> lon_lat) sample_line_ext))
      out"
    by simp
  then have blk: \<open>sublist (''<trkpt lon="-9.14" lat="38.7"></trkpt>'' @ newline @
                   ''<trkpt lon="-9.1" lat="38.75"></trkpt>'') out\<close>
    by (simp add: sample_line_ext_def track_point_lon_lat_def decimal_def)
  from main have \<open>geojsonToGpx decimal
      (Some (feature_collection [line_feature_ext Undefined sample_line_ext]))
      ''A'' ''B'' =
     Inr (''<?xml version="1.0" encoding="UTF-8"?>'' @ newline @
          ''<gpx version="1.1" creator="CustomConverter" xmlns="http://www.topografix.com/GPX/1/1">'' @
          newline @ newline @
          ''<wpt lon="-9.14" lat="38.7">'' @ newline @
          ''  <name>A</name>'' @ newline @
          ''</wpt>'' @ newline @
          ''<wpt lon="-9.1" lat="38.75">'' @ newline @
          ''  <name>B</name>'' @ newline @
          ''</wpt>'' @ newline @
          ''<trk><name>Rota</name><trkseg><trkpt lon="-9.14" lat="38.7"></trkpt>'' @ newline @
          ''<trkpt lon="-9.1" lat="38.75"></trkpt></trkseg></trk></gpx>'') \<and>
   map_option file_content
     (snd (downloadGPX decimal
        (loaded_state (sample_pattern ''p1'' ''A - B'' ''s1'' ''r1'')
           (single_feature (line_feature_ext Undefined sample_line_ext))))) =
     Some (''<?xml version="1.0" encoding="UTF-8"?>'' @ newline @
           ''<gpx version="1.1" creator="Carris Metropolitana">'' @ newline @
           ''  <trk>'' @ newline @
           ''    <name>A - B</name>'' @ newline @
           ''    <trkseg>'' @ newline @
           ''      <trkpt lat="38.7" lon="-9.14"></trkpt>'' @ newline @
           ''      <trkpt lat="38.75" lon="-9.1"></trkpt>'' @ newline @
           ''    </trkseg>'' @ newline @
           ''  </trk>'' @ newline @
           ''</gpx>'')\<close>
    by (simp add: sample_line_ext_def loaded_state_def decimal_def gpxHeader_def gpxFooter_def
          wpt_def track_point_lon_lat_def track_point_lat_lon_def sample_pattern_def)
  with out blk show ?thesis by blast
qed

text \<open>
  The claim as written fails: a single line feature and a feature collection of line features
  are both shapes with a coordinate sequence, and each exporter returns no document for one
  of them.
\<close>

theorem no_exporter_for_both_shapes:
  "geojsonToGpx decimal (Some (single_feature (line_feature_ext Undefined sample_line_ext)))
      ''Origem'' ''Destino'' = Inl InvalidGeoJSON \<and>
   snd (downloadGPX decimal
          (loaded_state (sample_pattern ''p1'' ''A - B'' ''s1'' ''r1'')
             (feature_collection [line_feature_ext Undefined sample_line_ext]))) = None"
  by (simp add: geojsonToGpx_def single_feature_def downloadGPX_def loaded_state_def
        gpxData_def feature_collection_def)





text \<open>
  Claim C9, as the code has it.  In \<open>geojsonToGpx\<close> the track of a line feature is named by
  the feature's own name property when that is present and not empty, and by the fixed string
  \<open>Rota\<close> otherwise; in \<open>downloadGPX\<close> the track is named by the headsign of the selected
  pattern, whatever the feature's name.
\<close>

theorem track_name_source:
  \<open>trk N (line_feature nm ps) =
     Inr (''<trk><name>'' @ (if js_truthy N nm then js_string N nm else ''Rota'') @
          ''</name><trkseg>'' @ js_join newline (map (track_point_lon_lat N) ps) @
          ''</trkseg></trk>'') \<and>
   trk N (line_feature (Str (c # cs)) ps) =
     Inr (''<trk><name>'' @ (c # cs) @ ''</name><trkseg>'' @
          js_join newline (map (track_point_lon_lat N) ps) @ ''</trkseg></trk>'') \<and>
   (nm = Undefined \<or> nm = Null \<or> nm = Str [] \<longrightarrow>
      trk N (line_feature nm ps) =
        Inr (''<trk><name>Rota</name><trkseg>'' @
             js_join newline (map (track_point_lon_lat N) ps) @ ''</trkseg></trk>'')) \<and>
   gpxData N pat \<lparr> geojson = Some (single_feature (line_feature nm ps)) \<rparr> =
     Inr (''<?xml version="1.0" encoding="UTF-8"?>'' @ newline @
          ''<gpx version="1.1" creator="Carris Metropolitana">'' @ newline @
          ''  <trk>'' @ newline @
          ''    <name>'' @ headsign pat @ ''</name>'' @ newline @
          ''    <trkseg>'' @ newline @
          js_join newline (map (track_point_lat_lon N) ps) @ newline @
          ''    </trkseg>'' @ newline @
          ''  </trk>'' @ newline @
          ''</gpx>'')\<close>
  using gpxData_line[of N pat nm ps]
  by (auto simp: trk_line_feature)

theorem track_name_source_witness:
  \<open>trk decimal (line_feature (Str ''Linha 1001'') sample_line) =
     Inr (''<trk><name>Linha 1001</name><trkseg><trkpt lon="-9.14" lat="38.7"></trkpt>'' @
          newline @ ''<trkpt lon="-9.1" lat="38.75"></trkpt></trkseg></trk>'') \<and>
   trk decimal (line_feature Undefined sample_line) =
     Inr (''<trk><name>Rota</name><trkseg><trkpt lon="-9.14" lat="38.7"></trkpt>'' @
          newline @ ''<trkpt lon="-9.1" lat="38.75"></trkpt></trkseg></trk>'')\<close>
  using track_name_source[of decimal Undefined sample_line "CHR ''L''" "''inha 1001''"
      "sample_pattern ''p1'' ''A - B'' ''s1'' ''r1''"]
  by (simp add: sample_line_def decimal_def track_point_lon_lat_def)

text \<open>
  The claim as written fails: the file built by \<open>downloadGPX\<close> for a feature that has a name
  carries the headsign as its track name, and \<open>geojsonToGpx\<close> has no track name argument to
  fall back on.
\<close>

theorem track_name_is_headsign:
  \<open>map_option file_content
     (snd (downloadGPX decimal
        (loaded_state (sample_pattern ''p1'' ''A - B'' ''s1'' ''r1'')
           (single_feature (line_feature (Str ''Linha 1001'') sample_line))))) =
     Some (''<?xml version="1.0" encoding="UTF-8"?>'' @ newline @
           ''<gpx version="1.1" creator="Carris Metropolitana">'' @ newline @
           ''  <trk>'' @ newline @
           ''    <name>A - B</name>'' @ newline @
           ''    <trkseg>'' @ newline @
           ''      <trkpt lat="38.7" lon="-9.14"></trkpt>'' @ newline @
           ''      <trkpt lat="38.75" lon="-9.1"></trkpt>'' @ newline @
           ''    </trkseg>'' @ newline @
           ''  </trk>'' @ newline @
           ''</gpx>'') \<and>
   geojsonToGpx decimal (Some (feature_collection [line_feature Undefined [(''1'', ''2'')]]))
      ''A'' ''B'' =
     Inr (gpxHeader @ newline @ wpt ''1'' ''2'' ''A'' @ wpt ''1'' ''2'' ''B'' @
          ''<trk><name>Rota</name><trkseg><trkpt lon="1" lat="2"></trkpt></trkseg></trk>'' @
          gpxFooter)\<close>
proof -
  have 1: "object_type (feature_collection gs) = ''FeatureCollection''" for gs :: "'a feature list"
    by (simp add: feature_collection_def)
  have b: "gpxBody decimal (feature_collection [line_feature Undefined [(''1'', ''2'')]]) =
      Inr (''<trk><name>Rota</name><trkseg><trkpt lon=\"1\" lat=\"2\"></trkpt></trkseg></trk>'')"
    using gpxBody_lines[of decimal "[(Undefined, [(''1'', ''2'')])]"]
    by (simp add: decimal_def track_point_lon_lat_def)
  have w: "waypoints decimal (feature_collection [line_feature Undefined [(''1'', ''2'')]])
      ''A'' ''B'' = Inr (newline @ wpt ''1'' ''2'' ''A'' @ wpt ''1'' ''2'' ''B'')"
    using waypoints_line_first[of decimal Undefined "(''1'', ''2'')" "[]" "[]" "''A''" "''B''"]
    by (simp add: decimal_def)
  have g: "geojsonToGpx decimal
      (Some (feature_collection [line_feature Undefined [(''1'', ''2'')]])) ''A'' ''B'' =
     Inr (gpxHeader @ newline @ wpt ''1'' ''2'' ''A'' @ wpt ''1'' ''2'' ''B'' @
          ''<trk><name>Rota</name><trkseg><trkpt lon=\"1\" lat=\"2\"></trkpt></trkseg></trk>'' @
          gpxFooter)"
    unfolding geojsonToGpx_def
    by (simp only: w b 1 option.case sum.case if_False simp_thms append_assoc)
  have d: "map_option file_content
     (snd (downloadGPX decimal
        (loaded_state (sample_pattern ''p1'' ''A - B'' ''s1'' ''r1'')
           (single_feature (line_feature (Str ''Linha 1001'') sample_line))))) =
     Some (''<?xml version=\"1.0\" encoding=\"UTF-8\"?>'' @ newline @
           ''<gpx version=\"1.1\" creator=\"Carris Metropolitana\">'' @ newline @
           ''  <trk>'' @ newline @
           ''    <name>A - B</name>'' @ newline @
           ''    <trkseg>'' @ newline @
           ''      <trkpt lat=\"38.7\" lon=\"-9.14\"></trkpt>'' @ newline @
           ''      <trkpt lat=\"38.75\" lon=\"-9.1\"></trkpt>'' @ newline @
           ''    </trkseg>'' @ newline @
           ''  </trk>'' @ newline @
           ''</gpx>'')"
    by (simp add: downloadGPX_def loaded_state_def gpxData_line sample_line_def decimal_def
          track_point_lat_lon_def sample_pattern_def)
  from d g show ?thesis by simp
qed





















end
